theory Spec2Isabelle
  imports Complex_Main "HOL-Library.Multiset" "HOL-Library.AList"
begin

section \<open>Data model (types.ts)\<close>

text \<open>
  The enums of \<^verbatim>\<open>types.ts\<close>. A building is \<^verbatim>\<open>'settlement' | 'city' | null\<close>, a port is a
  resource type or the string \<^verbatim>\<open>'3:1'\<close>; \<^verbatim>\<open>null\<close> and an absent optional field are \<open>None\<close>.
\<close>

datatype ResourceType = Brick | Wood | Sheep | Wheat | Ore | Desert

datatype PlayerColor = Red | Blue | Orange | White

datatype BuildingKind = Settlement | City

datatype GamePhase =
  InitialPlacement | RollingDice | MainPhase | Trading | Building | EndTurn | GameOver

datatype PortKind = ResourcePort ResourceType | GenericPort

text \<open>
  What a call can throw: reading a property of \<^verbatim>\<open>undefined\<close> (an array read out of range,
  a missing map entry) is a \<^verbatim>\<open>TypeError\<close>; \<^verbatim>\<open>rollDice\<close> throws its own error.
\<close>

datatype error = TypeError | DiceAlreadyRolled

text \<open>
  A JavaScript \<^verbatim>\<open>Map\<close> keeps its keys in insertion order and \<^verbatim>\<open>set\<close> on a present key keeps
  the key's place: an association list with \<^const>\<open>AList.update\<close>. The source always reads
  a count as \<^verbatim>\<open>m.get(k) || 0\<close>.
\<close>

definition mapGet0 :: "('k \<times> int) list \<Rightarrow> 'k \<Rightarrow> int" where
  "mapGet0 m k = (case map_of m k of None \<Rightarrow> 0 | Some n \<Rightarrow> n)"

definition mapSet :: "('k \<times> 'v) list \<Rightarrow> 'k \<Rightarrow> 'v \<Rightarrow> ('k \<times> 'v) list" where
  "mapSet m k v = AList.update k v m"

text \<open>An array read \<^verbatim>\<open>xs[i]\<close>: \<^verbatim>\<open>undefined\<close> out of range.\<close>

definition nth_opt :: "'a list \<Rightarrow> nat \<Rightarrow> 'a option" where
  "nth_opt xs i = (if i < length xs then Some (xs ! i) else None)"

text \<open>
  The fields \<^verbatim>\<open>id\<close>, \<^verbatim>\<open>x\<close>, \<^verbatim>\<open>y\<close> and \<^verbatim>\<open>name\<close> carry the name of their interface, since a
  record field is a constant of the theory. Coordinates are IEEE doubles in the source;
  here they are reals, and every distance or angle the source computes from them enters
  the model as a parameter. Counts are JavaScript numbers holding integers.
\<close>

record Player =
  playerId :: nat
  playerName :: string
  color :: PlayerColor
  resources :: "(ResourceType \<times> int) list"
  victoryPoints :: int
  settlements :: int
  cities :: int
  roads :: int
  longestRoad :: int
  knights :: int
  hasLongestRoad :: bool
  hasLargestArmy :: bool

record Hex =
  hexId :: nat
  hexX :: real
  hexY :: real
  resourceType :: ResourceType
  numberToken :: "nat option"
  hasRobber :: bool

record Vertex =
  vertexId :: nat
  vertexX :: real
  vertexY :: real
  building :: "BuildingKind option"
  playerColor :: "PlayerColor option"

record Edge =
  edgeId :: nat
  vertex1 :: nat
  vertex2 :: nat
  road :: "PlayerColor option"
  port :: "PortKind option"

record GameState =
  players :: "Player list"
  currentPlayerIndex :: nat
  phase :: GamePhase
  hexes :: "Hex list"
  vertices :: "Vertex list"
  edges :: "Edge list"
  diceRolled :: bool
  lastDiceRoll :: "nat option"
  lastDie1 :: "nat option"
  lastDie2 :: "nat option"
  rollHistory :: "(nat \<times> int) list"
  bank :: "(ResourceType \<times> int) list"
  longestRoadPlayer :: "nat option"
  largestArmyPlayer :: "nat option"
  longestRoadLength :: int
  largestArmySize :: int
  turnNumber :: int
  initialPlacementPhase :: bool
  initialPlacementRound :: nat

definition RESOURCE_DISTRIBUTION :: "(ResourceType \<times> int) list" where
  "RESOURCE_DISTRIBUTION =
     [(Brick, 3), (Wood, 4), (Sheep, 4), (Wheat, 4), (Ore, 3), (Desert, 1)]"

definition NUMBER_TOKENS :: "nat list" where
  "NUMBER_TOKENS = [2, 3, 3, 4, 4, 5, 5, 6, 6, 8, 8, 9, 9, 10, 10, 11, 11, 12]"

section \<open>Board construction (GameEngine.createBoard)\<close>

text \<open>
  \<^verbatim>\<open>shuffleArray\<close>: for \<open>i\<close> from \<open>length - 1\<close> down to 1, swap positions \<open>i\<close> and
  \<open>j = floor(random() * (i + 1))\<close>. The random source is the parameter \<open>pick\<close>: the draw
  at loop index \<open>i\<close>, reduced into the range \<open>0..i\<close> that the source's expression has.
\<close>

fun shuffleLoop :: "(nat \<Rightarrow> nat) \<Rightarrow> nat \<Rightarrow> 'a list \<Rightarrow> 'a list" where
  "shuffleLoop pick 0 xs = xs"
| "shuffleLoop pick (Suc i) xs =
     (let j = pick (Suc i) mod (Suc i + 1)
      in shuffleLoop pick i (xs[Suc i := xs ! j, j := xs ! Suc i]))"

definition shuffleArray :: "(nat \<Rightarrow> nat) \<Rightarrow> 'a list \<Rightarrow> 'a list" where
  "shuffleArray pick xs = shuffleLoop pick (length xs - 1) xs"

definition boardResources :: "ResourceType list" where
  "boardResources =
     [Brick, Brick, Brick,
      Wood, Wood, Wood, Wood,
      Sheep, Sheep, Sheep, Sheep,
      Wheat, Wheat, Wheat, Wheat,
      Ore, Ore, Ore,
      Desert]"

definition hexSize :: real where
  "hexSize = 60"

definition hexWidth :: real where
  "hexWidth = hexSize * sqrt 3"

definition hexHeight :: real where
  "hexHeight = hexSize * 1.5"

definition layout :: "(nat \<times> nat list) list" where
  "layout =
     [(0, [1, 2, 3]),
      (1, [0, 1, 2, 3]),
      (2, [0, 1, 2, 3, 4]),
      (3, [0, 1, 2, 3]),
      (4, [1, 2, 3])]"

text \<open>The cells in the order the nested \<^verbatim>\<open>forEach\<close> visits them.\<close>

definition layoutCells :: "(nat \<times> nat) list" where
  "layoutCells = concat (map (\<lambda>(row, cols). map (\<lambda>col. (row, col)) cols) layout)"

text \<open>
  The body of the nested \<^verbatim>\<open>forEach\<close>, with the counters \<^verbatim>\<open>hexId\<close> and \<^verbatim>\<open>numberIndex\<close>
  threaded. \<^verbatim>\<open>shuffledResources[hexId]\<close> is read at \<open>hexId < 19\<close>, inside the shuffled
  19-element array; \<^verbatim>\<open>shuffledNumbers[numberIndex++]\<close> is an array read.
\<close>

fun placeHexes ::
  "ResourceType list \<Rightarrow> nat list \<Rightarrow> (nat \<times> nat) list \<Rightarrow> nat \<Rightarrow> nat \<Rightarrow> Hex list" where
  "placeHexes rs ns [] nextId numberIndex = []"
| "placeHexes rs ns ((row, col) # cells) nextId numberIndex =
     (let resource = rs ! nextId;
          token = (if resource = Desert then None else nth_opt ns numberIndex);
          numberIndex' = (if resource = Desert then numberIndex else numberIndex + 1);
          isOddRow = (row mod 2 = 1);
          x = (real col + (if isOddRow then 0.5 else 0)) * hexWidth;
          y = real row * hexHeight
      in \<lparr>hexId = nextId, hexX = x, hexY = y, resourceType = resource,
           numberToken = token, hasRobber = (resource = Desert)\<rparr>
         # placeHexes rs ns cells (nextId + 1) numberIndex')"

definition newVertex :: "nat \<Rightarrow> Vertex" where
  "newVertex i =
     \<lparr>vertexId = i, vertexX = 0, vertexY = 0, building = None, playerColor = None\<rparr>"

definition newEdge :: "nat \<Rightarrow> Edge" where
  "newEdge i = \<lparr>edgeId = i, vertex1 = 0, vertex2 = 0, road = None, port = None\<rparr>"

text \<open>
  \<^verbatim>\<open>createBoard\<close>: 19 hexes from the two shuffles, 54 vertices at the origin, and 72
  placeholder edges whose two endpoints are both vertex 0 (the renderer connects them
  later). \<open>pickR\<close> and \<open>pickN\<close> are the random draws of the two shuffles.
\<close>

definition createBoard ::
  "(nat \<Rightarrow> nat) \<Rightarrow> (nat \<Rightarrow> nat) \<Rightarrow> Hex list \<times> Vertex list \<times> Edge list" where
  "createBoard pickR pickN =
     (let shuffledResources = shuffleArray pickR boardResources;
          shuffledNumbers = shuffleArray pickN NUMBER_TOKENS
      in (placeHexes shuffledResources shuffledNumbers layoutCells 0 0,
          map newVertex [0..<54],
          map newEdge [0..<72]))"

section \<open>Game creation (GameEngine.initializeGame, InitialPlacementManager constructor)\<close>

definition createPlayer :: "nat \<Rightarrow> string \<Rightarrow> PlayerColor \<Rightarrow> Player" where
  "createPlayer i nm c =
     \<lparr>playerId = i, playerName = nm, color = c,
      resources = [(Brick, 0), (Wood, 0), (Sheep, 0), (Wheat, 0), (Ore, 0)],
      victoryPoints = 0, settlements = 0, cities = 0, roads = 0, longestRoad = 0,
      knights = 0, hasLongestRoad = False, hasLargestArmy = False\<rparr>"

definition initialBank :: "(ResourceType \<times> int) list" where
  "initialBank =
     map (\<lambda>(resource, count). (resource, count * 19))
       (filter (\<lambda>(resource, count). resource \<noteq> Desert) RESOURCE_DISTRIBUTION)"

definition initializeGame :: "(nat \<Rightarrow> nat) \<Rightarrow> (nat \<Rightarrow> nat) \<Rightarrow> GameState" where
  "initializeGame pickR pickN =
     (case createBoard pickR pickN of (hs, vs, es) \<Rightarrow>
        \<lparr>players =
           [createPlayer 0 ''Player 1'' Red, createPlayer 1 ''Player 2'' Blue,
            createPlayer 2 ''Player 3'' Orange, createPlayer 3 ''Player 4'' White],
         currentPlayerIndex = 0,
         phase = InitialPlacement,
         hexes = hs, vertices = vs, edges = es,
         diceRolled = False,
         lastDiceRoll = None, lastDie1 = None, lastDie2 = None,
         rollHistory = [],
         bank = initialBank,
         longestRoadPlayer = None, largestArmyPlayer = None,
         longestRoadLength = 5, largestArmySize = 3,
         turnNumber = 0,
         initialPlacementPhase = True,
         initialPlacementRound = 1\<rparr>)"

text \<open>
  The engine holds the game state and, since the state starts in the initial-placement
  phase, always an \<^verbatim>\<open>InitialPlacementManager\<close> on the same state object; the manager's
  own field is \<^verbatim>\<open>placementsPerPlayer\<close>, whose entries \<^verbatim>\<open>{settlements, roads}\<close> are the record
  \<open>Placements\<close>.
\<close>

record Placements =
  settlementsPlaced :: nat
  roadsPlaced :: nat

record Engine =
  state :: GameState
  placementsPerPlayer :: "(nat \<times> Placements) list"

definition newEngine :: "(nat \<Rightarrow> nat) \<Rightarrow> (nat \<Rightarrow> nat) \<Rightarrow> Engine" where
  "newEngine pickR pickN =
     (let s = initializeGame pickR pickN
      in \<lparr>state = s,
          placementsPerPlayer =
            fold (\<lambda>player m. mapSet m (playerId player)
                    \<lparr>settlementsPlaced = 0, roadsPlaced = 0\<rparr>) (players s) []\<rparr>)"

section \<open>Adjacency\<close>

text \<open>
  The three geometric searches compare \<^verbatim>\<open>Math.sqrt(dx * dx + dy * dy)\<close>, the distance from
  a vertex to corner \<open>i\<close> of a hex, with 5 pixels. The source computes it from the
  centre of the hex, the corner index and the position of the vertex; that
  floating-point value is the parameter \<open>cd (hex.x, hex.y) i (vertex.x, vertex.y)\<close>.
\<close>

type_synonym cornerDist = "real \<times> real \<Rightarrow> nat \<Rightarrow> real \<times> real \<Rightarrow> real"

definition hexCentre :: "Hex \<Rightarrow> real \<times> real" where
  "hexCentre hex = (hexX hex, hexY hex)"

definition vertexPos :: "Vertex \<Rightarrow> real \<times> real" where
  "vertexPos vertex = (vertexX vertex, vertexY vertex)"

definition corners :: "nat list" where
  "corners = [0, 1, 2, 3, 4, 5]"

text \<open>
  The inner \<^verbatim>\<open>forEach\<close> of \<^verbatim>\<open>getVerticesAdjacentToHex\<close>: the pair
  \<^verbatim>\<open>(closestVertexId, minDistance)\<close> starts as \<^verbatim>\<open>(-1, Infinity)\<close>, here \<open>None\<close>.
\<close>

fun closestVertex ::
  "(Vertex \<Rightarrow> real) \<Rightarrow> Vertex list \<Rightarrow> nat \<Rightarrow> (nat \<times> real) option \<Rightarrow> (nat \<times> real) option" where
  "closestVertex d [] index best = best"
| "closestVertex d (vertex # vs) index best =
     (let distance = d vertex
      in if (case best of None \<Rightarrow> True | Some (_, minDistance) \<Rightarrow> distance < minDistance)
            \<and> distance < 5
         then closestVertex d vs (index + 1) (Some (index, distance))
         else closestVertex d vs (index + 1) best)"

definition getVerticesAdjacentToHex :: "cornerDist \<Rightarrow> GameState \<Rightarrow> nat \<Rightarrow> error + nat list" where
  "getVerticesAdjacentToHex cd s hid =
     (case nth_opt (hexes s) hid of
        None \<Rightarrow> Inl TypeError
      | Some hex \<Rightarrow>
          Inr (fold (\<lambda>i adjacentVertices.
                 case closestVertex (\<lambda>vertex. cd (hexCentre hex) i (vertexPos vertex))
                        (vertices s) 0 None of
                   None \<Rightarrow> adjacentVertices
                 | Some (closestVertexId, _) \<Rightarrow>
                     if closestVertexId \<in> set adjacentVertices then adjacentVertices
                     else adjacentVertices @ [closestVertexId])
               corners []))"

definition nearHex :: "cornerDist \<Rightarrow> Vertex \<Rightarrow> Hex \<Rightarrow> bool" where
  "nearHex cd vertex hex = list_ex (\<lambda>i. cd (hexCentre hex) i (vertexPos vertex) < 5) corners"

text \<open>
  \<^verbatim>\<open>getHexesAdjacentToVertex\<close>: the vertex is only read inside the loop over the hexes.
\<close>

definition getHexesAdjacentToVertex :: "cornerDist \<Rightarrow> GameState \<Rightarrow> nat \<Rightarrow> error + Hex list" where
  "getHexesAdjacentToVertex cd s vid =
     (case nth_opt (vertices s) vid of
        None \<Rightarrow> (if hexes s = [] then Inr [] else Inl TypeError)
      | Some vertex \<Rightarrow> Inr (filter (nearHex cd vertex) (hexes s)))"

text \<open>A \<^verbatim>\<open>Set\<close> keeps insertion order; \<^verbatim>\<open>add\<close> of a present element changes nothing.\<close>

definition setAdd :: "'a list \<Rightarrow> 'a \<Rightarrow> 'a list" where
  "setAdd xs x = (if x \<in> set xs then xs else xs @ [x])"

definition getAdjacentVertices :: "GameState \<Rightarrow> nat \<Rightarrow> nat list" where
  "getAdjacentVertices s vid =
     fold (\<lambda>edge adjacent.
        if vertex1 edge = vid then setAdd adjacent (vertex2 edge)
        else if vertex2 edge = vid then setAdd adjacent (vertex1 edge)
        else adjacent)
      (edges s) []"

fun distanceLoop :: "Vertex list \<Rightarrow> nat list \<Rightarrow> error + bool" where
  "distanceLoop vs [] = Inr True"
| "distanceLoop vs (adjId # rest) =
     (case nth_opt vs adjId of
        None \<Rightarrow> Inl TypeError
      | Some adjVertex \<Rightarrow>
          if building adjVertex \<noteq> None then Inr False else distanceLoop vs rest)"

definition checkDistanceRule :: "GameState \<Rightarrow> nat \<Rightarrow> error + bool" where
  "checkDistanceRule s vid = distanceLoop (vertices s) (getAdjacentVertices s vid)"

definition getEdgesConnectedToVertex :: "GameState \<Rightarrow> nat \<Rightarrow> nat list" where
  "getEdgesConnectedToVertex s vid =
     filter (\<lambda>index. vertex1 (edges s ! index) = vid \<or> vertex2 (edges s ! index) = vid)
       [0..<length (edges s)]"

definition getConnectedEdges :: "GameState \<Rightarrow> nat \<Rightarrow> error + nat list" where
  "getConnectedEdges s eid =
     (case nth_opt (edges s) eid of
        None \<Rightarrow> (if edges s = [] then Inr [] else Inl TypeError)
      | Some edge \<Rightarrow>
          Inr (filter (\<lambda>index. index \<noteq> eid \<and>
                 (vertex1 (edges s ! index) = vertex1 edge \<or>
                  vertex1 (edges s ! index) = vertex2 edge \<or>
                  vertex2 (edges s ! index) = vertex1 edge \<or>
                  vertex2 (edges s ! index) = vertex2 edge))
               [0..<length (edges s)]))"

section \<open>Initial placement (InitialPlacementManager)\<close>

text \<open>
  A command returns what it returned or threw, together with the engine as the call left
  it: a throw keeps the writes made before it.
\<close>

definition canPlaceSettlement :: "Engine \<Rightarrow> nat \<Rightarrow> nat \<Rightarrow> error + bool" where
  "canPlaceSettlement e vid pid =
     (let s = state e in
      if currentPlayerIndex s \<noteq> pid then Inr False
      else case map_of (placementsPerPlayer e) pid of
        None \<Rightarrow> Inl TypeError
      | Some placements \<Rightarrow>
          if (if initialPlacementRound s = 1 then settlementsPlaced placements \<ge> 1
              else settlementsPlaced placements \<ge> 2)
          then Inr False
          else (case nth_opt (vertices s) vid of
            None \<Rightarrow> Inl TypeError
          | Some vertex \<Rightarrow>
              if building vertex \<noteq> None then Inr False else checkDistanceRule s vid))"

text \<open>
  One disjunct of \<^verbatim>\<open>connectsToSettlement\<close>:
  \<^verbatim>\<open>v.building === 'settlement' && v.playerColor === player.color\<close>, the player being read
  only when the first conjunct holds.
\<close>

definition settlementOf :: "Vertex option \<Rightarrow> Player option \<Rightarrow> error + bool" where
  "settlementOf vo po =
     (case vo of
        None \<Rightarrow> Inl TypeError
      | Some v \<Rightarrow>
          if building v = Some Settlement
          then (case po of None \<Rightarrow> Inl TypeError
                | Some player \<Rightarrow> Inr (playerColor v = Some (color player)))
          else Inr False)"

text \<open>\<^verbatim>\<open>a || b\<close> on outcomes: \<open>b\<close> is evaluated only when \<open>a\<close> is false.\<close>

definition orElse :: "error + bool \<Rightarrow> error + bool \<Rightarrow> error + bool" where
  "orElse a b = (case a of Inl err \<Rightarrow> Inl err | Inr x \<Rightarrow> if x then Inr True else b)"

definition canPlaceRoad :: "Engine \<Rightarrow> nat \<Rightarrow> nat \<Rightarrow> nat \<Rightarrow> error + bool" where
  "canPlaceRoad e eid pid vid =
     (let s = state e in
      if currentPlayerIndex s \<noteq> pid then Inr False
      else case map_of (placementsPerPlayer e) pid of
        None \<Rightarrow> Inl TypeError
      | Some placements \<Rightarrow>
          if (if initialPlacementRound s = 1
              then settlementsPlaced placements < 1 \<or> roadsPlaced placements \<ge> 1
              else settlementsPlaced placements < 2 \<or> roadsPlaced placements \<ge> 2)
          then Inr False
          else (case nth_opt (edges s) eid of
            None \<Rightarrow> Inl TypeError
          | Some edge \<Rightarrow>
              if road edge \<noteq> None then Inr False
              else orElse
                (settlementOf (nth_opt (vertices s) (vertex1 edge)) (nth_opt (players s) pid))
                (settlementOf (nth_opt (vertices s) (vertex2 edge)) (nth_opt (players s) pid))))"

text \<open>
  \<^verbatim>\<open>giveInitialResources\<close>: one unit per adjacent hex that is not desert and has a number
  token. The player is read at the first such hex; nothing is written before.
\<close>

definition giveInitialResources :: "cornerDist \<Rightarrow> GameState \<Rightarrow> nat \<Rightarrow> nat \<Rightarrow> error + GameState" where
  "giveInitialResources cd s vid pid =
     (case getHexesAdjacentToVertex cd s vid of
        Inl err \<Rightarrow> Inl err
      | Inr adjacentHexes \<Rightarrow>
          (let granting =
                 filter (\<lambda>hex. resourceType hex \<noteq> Desert \<and> numberToken hex \<noteq> None) adjacentHexes
           in if granting = [] then Inr s
              else case nth_opt (players s) pid of
                None \<Rightarrow> Inl TypeError
              | Some player \<Rightarrow>
                  Inr (s\<lparr>players := (players s)[pid := player\<lparr>resources :=
                         fold (\<lambda>hex m. mapSet m (resourceType hex) (mapGet0 m (resourceType hex) + 1))
                           granting (resources player)\<rparr>]\<rparr>)))"

text \<open>
  \<^verbatim>\<open>placements.settlements++\<close> and \<^verbatim>\<open>placements.roads++\<close> on the entry of the map; the
  entry exists wherever the source reaches the increment.
\<close>

definition bumpPlacements ::
  "(Placements \<Rightarrow> Placements) \<Rightarrow> (nat \<times> Placements) list \<Rightarrow> nat \<Rightarrow> (nat \<times> Placements) list" where
  "bumpPlacements f m pid = (case map_of m pid of None \<Rightarrow> m | Some pl \<Rightarrow> mapSet m pid (f pl))"

text \<open>
  \<^verbatim>\<open>placeInitialSettlement\<close>. After a successful check the vertex exists; the player is
  read after \<^verbatim>\<open>vertex.building\<close> has been written.
\<close>

definition placeInitialSettlement ::
  "cornerDist \<Rightarrow> Engine \<Rightarrow> nat \<Rightarrow> nat \<Rightarrow> (error + bool) \<times> Engine" where
  "placeInitialSettlement cd e vid pid =
     (case canPlaceSettlement e vid pid of
        Inl err \<Rightarrow> (Inl err, e)
      | Inr ok \<Rightarrow>
          if \<not> ok then (Inr False, e)
          else
            (let s = state e;
                 vertex = vertices s ! vid;
                 s1 = s\<lparr>vertices := (vertices s)[vid := vertex\<lparr>building := Some Settlement\<rparr>]\<rparr>
             in case nth_opt (players s) pid of
                  None \<Rightarrow> (Inl TypeError, e\<lparr>state := s1\<rparr>)
                | Some player \<Rightarrow>
                    (let s2 = s\<lparr>vertices := (vertices s)[vid := vertex\<lparr>building := Some Settlement,
                                     playerColor := Some (color player)\<rparr>],
                                 players := (players s)[pid := player\<lparr>
                                     settlements := settlements player + 1,
                                     victoryPoints := victoryPoints player + 1\<rparr>]\<rparr>;
                         e2 = e\<lparr>state := s2,
                                placementsPerPlayer := bumpPlacements
                                  (\<lambda>pl. pl\<lparr>settlementsPlaced := settlementsPlaced pl + 1\<rparr>)
                                  (placementsPerPlayer e) pid\<rparr>
                     in if initialPlacementRound s = 2
                        then (case giveInitialResources cd s2 vid pid of
                                Inl err \<Rightarrow> (Inl err, e2)
                              | Inr s3 \<Rightarrow> (Inr True, e2\<lparr>state := s3\<rparr>))
                        else (Inr True, e2))))"

text \<open>
  \<^verbatim>\<open>placeInitialRoad\<close>. A successful check has read the edge and the player, so both exist.
\<close>

definition placeInitialRoad :: "Engine \<Rightarrow> nat \<Rightarrow> nat \<Rightarrow> nat \<Rightarrow> (error + bool) \<times> Engine" where
  "placeInitialRoad e eid pid vid =
     (case canPlaceRoad e eid pid vid of
        Inl err \<Rightarrow> (Inl err, e)
      | Inr ok \<Rightarrow>
          if \<not> ok then (Inr False, e)
          else
            (let s = state e;
                 edge = edges s ! eid;
                 player = players s ! pid
             in (Inr True,
                 e\<lparr>state := s\<lparr>edges := (edges s)[eid := edge\<lparr>road := Some (color player)\<rparr>],
                                 players := (players s)[pid := player\<lparr>roads := roads player + 1\<rparr>]\<rparr>,
                   placementsPerPlayer := bumpPlacements
                     (\<lambda>pl. pl\<lparr>roadsPlaced := roadsPlaced pl + 1\<rparr>) (placementsPerPlayer e) pid\<rparr>)))"

definition advanceToNextPlayer :: "GameState \<Rightarrow> GameState" where
  "advanceToNextPlayer s =
     (if initialPlacementRound s = 1 then
        (if currentPlayerIndex s = 3 then s\<lparr>initialPlacementRound := 2\<rparr>
         else s\<lparr>currentPlayerIndex := (currentPlayerIndex s + 1) mod 4\<rparr>)
      else
        (if currentPlayerIndex s = 0
         then s\<lparr>initialPlacementPhase := False, phase := RollingDice, currentPlayerIndex := 0\<rparr>
         else s\<lparr>currentPlayerIndex := (currentPlayerIndex s - 1 + 4) mod 4\<rparr>))"

definition getCurrentPlacementStatus :: "Engine \<Rightarrow> nat \<Rightarrow> Placements" where
  "getCurrentPlacementStatus e pid =
     (case map_of (placementsPerPlayer e) pid of
        None \<Rightarrow> \<lparr>settlementsPlaced = 0, roadsPlaced = 0\<rparr>
      | Some pl \<Rightarrow> pl)"

section \<open>Longest road (GameEngine.calculateLongestRoad, updateLongestRoad)\<close>

text \<open>
  \<^verbatim>\<open>findLongestPathFromEdge\<close> adds the edge to \<^verbatim>\<open>visited\<close>, loops over the edges at
  \<^verbatim>\<open>vertex1\<close> and then at \<^verbatim>\<open>vertex2\<close>, and deletes the edge again before it returns: a
  call returns the set as it found it, so every recursive call of one loop sees the
  caller's set with the caller's edge added. \<open>nextLoop\<close> is the two nested \<^verbatim>\<open>for\<close> loops
  over the concatenated edge lists, with \<^verbatim>\<open>maxLength\<close> as accumulator.
\<close>

function findLongestPathFromEdge :: "GameState \<Rightarrow> nat \<Rightarrow> nat \<Rightarrow> nat list \<Rightarrow> error + nat"
  and nextLoop :: "GameState \<Rightarrow> nat \<Rightarrow> nat \<Rightarrow> nat list \<Rightarrow> nat list \<Rightarrow> nat \<Rightarrow> error + nat" where
  "findLongestPathFromEdge s eid pid visited =
     (case nth_opt (edges s) eid of
        None \<Rightarrow> Inl TypeError
      | Some edge \<Rightarrow>
          nextLoop s eid pid (eid # visited)
            (getEdgesConnectedToVertex s (vertex1 edge) @
             getEdgesConnectedToVertex s (vertex2 edge)) 1)"
| "nextLoop s eid pid visited [] maxLength = Inr maxLength"
| "nextLoop s eid pid visited (nextEdgeId # rest) maxLength =
     (if nextEdgeId \<noteq> eid \<and> nextEdgeId \<notin> set visited then
        (case nth_opt (edges s) nextEdgeId of
           None \<Rightarrow> Inl TypeError
         | Some nextEdge \<Rightarrow>
             (case nth_opt (players s) pid of
                None \<Rightarrow> Inl TypeError
              | Some player \<Rightarrow>
                  if road nextEdge = Some (color player) then
                    (case findLongestPathFromEdge s nextEdgeId pid visited of
                       Inl err \<Rightarrow> Inl err
                     | Inr len \<Rightarrow> nextLoop s eid pid visited rest (max maxLength (1 + len)))
                  else nextLoop s eid pid visited rest maxLength))
      else nextLoop s eid pid visited rest maxLength)"
  by pat_completeness auto
termination
proof (relation "inv_image (less_than <*lex*> less_than <*lex*> less_than)
    (\<lambda>x. case x of
        Inl (s, eid, pid, visited) \<Rightarrow>
          (card ({..<length (edges s)} - set (eid # visited)), 1::nat, 0::nat)
      | Inr (s, eid, pid, visited, pending, maxLength) \<Rightarrow>
          (card ({..<length (edges s)} - set visited), 0, length pending))", goal_cases)
  case 1
  show ?case by (intro wf_inv_image wf_lex_prod wf_less_than)
next
  case (2 s eid pid visited edge)
  show ?case by simp
next
  case (3 s eid pid visited nextEdgeId rest maxLength nextEdge player)
  then have "nextEdgeId \<in> {..<length (edges s)} - set visited"
    by (simp add: nth_opt_def split: if_splits)
  then have "card ({..<length (edges s)} - set visited - {nextEdgeId})
               < card ({..<length (edges s)} - set visited)"
    by (intro card_Diff1_less) simp_all
  moreover have "{..<length (edges s)} - set (nextEdgeId # visited)
                   = {..<length (edges s)} - set visited - {nextEdgeId}"
    by auto
  ultimately show ?case by simp
next
  case 4
  show ?case by simp
next
  case 5
  show ?case by simp
next
  case 6
  show ?case by simp
qed

text \<open>
  The loop of \<^verbatim>\<open>calculateLongestRoad\<close> over the player's roads; \<^verbatim>\<open>visited\<close> is empty
  again after every call, so every road is a start.
\<close>

fun startLoop :: "GameState \<Rightarrow> nat \<Rightarrow> nat list \<Rightarrow> nat \<Rightarrow> error + nat" where
  "startLoop s pid [] maxLength = Inr maxLength"
| "startLoop s pid (startEdgeId # rest) maxLength =
     (case findLongestPathFromEdge s startEdgeId pid [] of
        Inl err \<Rightarrow> Inl err
      | Inr len \<Rightarrow> startLoop s pid rest (max maxLength len))"

definition calculateLongestRoad :: "GameState \<Rightarrow> nat \<Rightarrow> error + nat" where
  "calculateLongestRoad s pid =
     (case nth_opt (players s) pid of
        None \<Rightarrow> (if edges s = [] then Inr 0 else Inl TypeError)
      | Some player \<Rightarrow>
          (let playerRoads =
                 filter (\<lambda>index. road (edges s ! index) = Some (color player))
                   [0..<length (edges s)]
           in if playerRoads = [] then Inr 0 else startLoop s pid playerRoads 0))"

text \<open>
  The \<^verbatim>\<open>forEach\<close> of \<^verbatim>\<open>updateLongestRoad\<close> with its two locals
  \<^verbatim>\<open>(longestPlayer, longestLength)\<close>.
\<close>

fun longestLoop :: "GameState \<Rightarrow> Player list \<Rightarrow> nat option \<times> nat \<Rightarrow> error + nat option \<times> nat" where
  "longestLoop s [] acc = Inr acc"
| "longestLoop s (player # rest) (longestPlayer, longestLength) =
     (case calculateLongestRoad s (playerId player) of
        Inl err \<Rightarrow> Inl err
      | Inr len \<Rightarrow>
          if len > longestLength then longestLoop s rest (Some (playerId player), len)
          else if len = longestLength \<and> len \<ge> 5 then
            (if longestRoadPlayer s = Some (playerId player)
             then longestLoop s rest (Some (playerId player), longestLength)
             else longestLoop s rest (longestPlayer, longestLength))
          else longestLoop s rest (longestPlayer, longestLength))"

text \<open>
  The first block of the update: the previous holder, if it still has the flag, loses
  2 victory points and the flag. \<^verbatim>\<open>longestRoadPlayer\<close> is not cleared.
\<close>

definition removeFromPrevious :: "GameState \<Rightarrow> error + GameState" where
  "removeFromPrevious s =
     (case longestRoadPlayer s of
        None \<Rightarrow> Inr s
      | Some prev \<Rightarrow>
          (case nth_opt (players s) prev of
             None \<Rightarrow> Inl TypeError
           | Some prevPlayer \<Rightarrow>
               if hasLongestRoad prevPlayer
               then Inr (s\<lparr>players := (players s)[prev := prevPlayer\<lparr>
                           victoryPoints := victoryPoints prevPlayer - 2,
                           hasLongestRoad := False\<rparr>]\<rparr>)
               else Inr s))"

definition updateLongestRoad :: "GameState \<Rightarrow> (error + unit) \<times> GameState" where
  "updateLongestRoad s =
     (case longestLoop s (players s) (None, 0) of
        Inl err \<Rightarrow> (Inl err, s)
      | Inr (longestPlayer, longestLength) \<Rightarrow>
          if longestLength \<ge> 5 then
            (case removeFromPrevious s of
               Inl err \<Rightarrow> (Inl err, s)
             | Inr s1 \<Rightarrow>
                 (case longestPlayer of
                    None \<Rightarrow> (Inr (), s1)
                  | Some lp \<Rightarrow>
                      if Some lp \<noteq> longestRoadPlayer s then
                        (case nth_opt (players s1) lp of
                           None \<Rightarrow> (Inl TypeError, s1)
                         | Some newPlayer \<Rightarrow>
                             (Inr (), s1\<lparr>players := (players s1)[lp := newPlayer\<lparr>
                                            victoryPoints := victoryPoints newPlayer + 2,
                                            hasLongestRoad := True\<rparr>],
                                          longestRoadPlayer := Some lp,
                                          longestRoadLength := int longestLength\<rparr>))
                      else (Inr (), s1)))
          else (Inr (), s))"

section \<open>Building (GameEngine.buildSettlement, buildCity, buildRoad)\<close>

definition canAffordSettlement :: "Player \<Rightarrow> bool" where
  "canAffordSettlement player \<longleftrightarrow>
     mapGet0 (resources player) Brick \<ge> 1 \<and> mapGet0 (resources player) Wood \<ge> 1 \<and>
     mapGet0 (resources player) Sheep \<ge> 1 \<and> mapGet0 (resources player) Wheat \<ge> 1"

definition canAffordCity :: "Player \<Rightarrow> bool" where
  "canAffordCity player \<longleftrightarrow>
     mapGet0 (resources player) Wheat \<ge> 2 \<and> mapGet0 (resources player) Ore \<ge> 3"

definition canAffordRoad :: "Player \<Rightarrow> bool" where
  "canAffordRoad player \<longleftrightarrow>
     mapGet0 (resources player) Brick \<ge> 1 \<and> mapGet0 (resources player) Wood \<ge> 1"

text \<open>\<^verbatim>\<open>m.set(r, (m.get(r) || 0) - n)\<close>\<close>

definition spend :: "(ResourceType \<times> int) list \<Rightarrow> ResourceType \<Rightarrow> int \<Rightarrow> (ResourceType \<times> int) list" where
  "spend m r n = mapSet m r (mapGet0 m r - n)"

definition payForSettlement :: "Player \<Rightarrow> Player" where
  "payForSettlement player =
     player\<lparr>resources := spend (spend (spend (spend (resources player) Brick 1) Wood 1) Sheep 1) Wheat 1\<rparr>"

definition payForCity :: "Player \<Rightarrow> Player" where
  "payForCity player = player\<lparr>resources := spend (spend (resources player) Wheat 2) Ore 3\<rparr>"

definition payForRoad :: "Player \<Rightarrow> Player" where
  "payForRoad player = player\<lparr>resources := spend (spend (resources player) Brick 1) Wood 1\<rparr>"

text \<open>
  The part of \<^verbatim>\<open>buildSettlement\<close> after the initial-placement branch. Every read that can
  throw comes before the first write.
\<close>

definition buildSettlementMain :: "GameState \<Rightarrow> nat \<Rightarrow> nat \<Rightarrow> (error + bool) \<times> GameState" where
  "buildSettlementMain s vid pid =
     (case nth_opt (players s) pid of
        None \<Rightarrow> (Inl TypeError, s)
      | Some player \<Rightarrow>
          if \<not> canAffordSettlement player then (Inr False, s)
          else
            (case nth_opt (vertices s) vid of
               None \<Rightarrow> (Inl TypeError, s)
             | Some vertex \<Rightarrow>
                 if building vertex \<noteq> None then (Inr False, s)
                 else
                   (case checkDistanceRule s vid of
                      Inl err \<Rightarrow> (Inl err, s)
                    | Inr ok \<Rightarrow>
                        if \<not> ok then (Inr False, s)
                        else
                          (Inr True,
                           s\<lparr>vertices := (vertices s)[vid := vertex\<lparr>
                                 building := Some Settlement,
                                 playerColor := Some (color player)\<rparr>],
                             players := (players s)[pid := payForSettlement (player\<lparr>
                                 settlements := settlements player + 1,
                                 victoryPoints := victoryPoints player + 1\<rparr>)]\<rparr>))))"

definition buildSettlement :: "cornerDist \<Rightarrow> Engine \<Rightarrow> nat \<Rightarrow> nat \<Rightarrow> (error + bool) \<times> Engine" where
  "buildSettlement cd e vid pid =
     (if initialPlacementPhase (state e) then placeInitialSettlement cd e vid pid
      else (case buildSettlementMain (state e) vid pid of (r, s') \<Rightarrow> (r, e\<lparr>state := s'\<rparr>)))"

text \<open>
  \<^verbatim>\<open>buildCity\<close>: \<^verbatim>\<open>vertex.building !== 'settlement' || vertex.playerColor !== player.color\<close>
  reads the player only when the vertex holds a settlement.
\<close>

definition buildCity :: "GameState \<Rightarrow> nat \<Rightarrow> nat \<Rightarrow> (error + bool) \<times> GameState" where
  "buildCity s vid pid =
     (case nth_opt (vertices s) vid of
        None \<Rightarrow> (Inl TypeError, s)
      | Some vertex \<Rightarrow>
          if building vertex \<noteq> Some Settlement then (Inr False, s)
          else
            (case nth_opt (players s) pid of
               None \<Rightarrow> (Inl TypeError, s)
             | Some player \<Rightarrow>
                 if playerColor vertex \<noteq> Some (color player) then (Inr False, s)
                 else if \<not> canAffordCity player then (Inr False, s)
                 else
                   (Inr True,
                    s\<lparr>vertices := (vertices s)[vid := vertex\<lparr>building := Some City\<rparr>],
                      players := (players s)[pid := payForCity (player\<lparr>
                          cities := cities player + 1,
                          settlements := settlements player - 1,
                          victoryPoints := victoryPoints player + 1\<rparr>)]\<rparr>)))"

text \<open>
  One disjunct of the first test of \<^verbatim>\<open>isRoadConnected\<close>:
  \<^verbatim>\<open>v.building !== null && v.playerColor === player.color\<close>.
\<close>

definition buildingOf :: "Vertex option \<Rightarrow> Player option \<Rightarrow> error + bool" where
  "buildingOf vo po =
     (case vo of
        None \<Rightarrow> Inl TypeError
      | Some v \<Rightarrow>
          if building v \<noteq> None
          then (case po of None \<Rightarrow> Inl TypeError
                | Some player \<Rightarrow> Inr (playerColor v = Some (color player)))
          else Inr False)"

definition isRoadConnected :: "GameState \<Rightarrow> nat \<Rightarrow> nat \<Rightarrow> error + bool" where
  "isRoadConnected s eid pid =
     (case nth_opt (edges s) eid of
        None \<Rightarrow> Inl TypeError
      | Some edge \<Rightarrow>
          orElse
            (orElse (buildingOf (nth_opt (vertices s) (vertex1 edge)) (nth_opt (players s) pid))
                    (buildingOf (nth_opt (vertices s) (vertex2 edge)) (nth_opt (players s) pid)))
            (case getConnectedEdges s eid of
               Inl err \<Rightarrow> Inl err
             | Inr connectedEdges \<Rightarrow>
                 if connectedEdges = [] then Inr False
                 else (case nth_opt (players s) pid of
                         None \<Rightarrow> Inl TypeError
                       | Some player \<Rightarrow>
                           Inr (list_ex (\<lambda>index. road (edges s ! index) = Some (color player))
                                  connectedEdges))))"

text \<open>
  The part of \<^verbatim>\<open>buildRoad\<close> after the initial-placement branch: the road is built and
  paid for, then \<^verbatim>\<open>updateLongestRoad\<close> runs on the new state.
\<close>

definition buildRoadMain :: "GameState \<Rightarrow> nat \<Rightarrow> nat \<Rightarrow> (error + bool) \<times> GameState" where
  "buildRoadMain s eid pid =
     (case nth_opt (edges s) eid of
        None \<Rightarrow> (Inl TypeError, s)
      | Some edge \<Rightarrow>
          if road edge \<noteq> None then (Inr False, s)
          else
            (case nth_opt (players s) pid of
               None \<Rightarrow> (Inl TypeError, s)
             | Some player \<Rightarrow>
                 if \<not> canAffordRoad player then (Inr False, s)
                 else
                   (case isRoadConnected s eid pid of
                      Inl err \<Rightarrow> (Inl err, s)
                    | Inr ok \<Rightarrow>
                        if \<not> ok then (Inr False, s)
                        else
                          (case updateLongestRoad
                                  (s\<lparr>edges := (edges s)[eid := edge\<lparr>road := Some (color player)\<rparr>],
                                     players := (players s)[pid := payForRoad (player\<lparr>
                                         roads := roads player + 1\<rparr>)]\<rparr>) of
                             (Inl err, s') \<Rightarrow> (Inl err, s')
                           | (Inr _, s') \<Rightarrow> (Inr True, s')))))"

text \<open>
  \<^verbatim>\<open>buildRoad(edgeId, playerId, vertexId?)\<close>: the initial-placement branch is taken only
  when a \<^verbatim>\<open>vertexId\<close> is passed.
\<close>

definition buildRoad :: "Engine \<Rightarrow> nat \<Rightarrow> nat \<Rightarrow> nat option \<Rightarrow> (error + bool) \<times> Engine" where
  "buildRoad e eid pid vidOpt =
     (case (if initialPlacementPhase (state e) then vidOpt else None) of
        Some vid \<Rightarrow>
        (case placeInitialRoad e eid pid vid of
           (Inl err, e') \<Rightarrow> (Inl err, e')
         | (Inr success, e') \<Rightarrow>
             if success then
               (let status = getCurrentPlacementStatus e' pid;
                    round = initialPlacementRound (state e')
                in if round = 1 then
                     (if settlementsPlaced status \<ge> 1 \<and> roadsPlaced status \<ge> 1
                      then (Inr True, e'\<lparr>state := advanceToNextPlayer (state e')\<rparr>)
                      else (Inr True, e'))
                   else if round = 2 then
                     (if settlementsPlaced status \<ge> 2 \<and> roadsPlaced status \<ge> 2
                      then (Inr True, e'\<lparr>state := advanceToNextPlayer (state e')\<rparr>)
                      else (Inr True, e'))
                   else (Inr True, e'))
             else (Inr False, e'))
      | None \<Rightarrow> (case buildRoadMain (state e) eid pid of (r, s') \<Rightarrow> (r, e\<lparr>state := s'\<rparr>)))"

section \<open>Dice, production and the robber\<close>

text \<open>\<^verbatim>\<open>players.find(p => p.color === c)\<close> returns the first match; its index is kept.\<close>

fun findIndex :: "('a \<Rightarrow> bool) \<Rightarrow> 'a list \<Rightarrow> nat option" where
  "findIndex P [] = None"
| "findIndex P (x # xs) = (if P x then Some 0 else map_option Suc (findIndex P xs))"

text \<open>The body of the inner \<^verbatim>\<open>forEach\<close> of \<^verbatim>\<open>distributeResources\<close> for one vertex.\<close>

definition creditVertex :: "Hex \<Rightarrow> Vertex \<Rightarrow> Player list \<Rightarrow> Player list" where
  "creditVertex hex vertex ps =
     (if building vertex \<noteq> None \<and> playerColor vertex \<noteq> None then
        (case findIndex (\<lambda>p. Some (color p) = playerColor vertex) ps of
           None \<Rightarrow> ps
         | Some k \<Rightarrow>
             if resourceType hex \<noteq> Desert then
               (let player = ps ! k;
                    amount = (if building vertex = Some City then 2 else 1);
                    currentAmount = mapGet0 (resources player) (resourceType hex)
                in ps[k := player\<lparr>resources :=
                     mapSet (resources player) (resourceType hex) (currentAmount + amount)\<rparr>])
             else ps)
      else ps)"

text \<open>
  The vertex ids come from \<^verbatim>\<open>getVerticesAdjacentToHex\<close>, which returns indices of the
  vertex array.
\<close>

fun creditVertices :: "Hex \<Rightarrow> Vertex list \<Rightarrow> nat list \<Rightarrow> Player list \<Rightarrow> Player list" where
  "creditVertices hex vs [] ps = ps"
| "creditVertices hex vs (vid # rest) ps =
     creditVertices hex vs rest (creditVertex hex (vs ! vid) ps)"

text \<open>
  The outer \<^verbatim>\<open>forEach\<close> over the matching hexes. \<^verbatim>\<open>getVerticesAdjacentToHex(hex.id)\<close> reads
  \<^verbatim>\<open>hexes[hex.id]\<close> and throws when there is none, after the earlier hexes have paid out.
  Only players' resources are written: the bank is neither read nor written.
\<close>

fun distributeLoop :: "cornerDist \<Rightarrow> GameState \<Rightarrow> Hex list \<Rightarrow> (error + unit) \<times> GameState" where
  "distributeLoop cd s [] = (Inr (), s)"
| "distributeLoop cd s (hex # rest) =
     (case getVerticesAdjacentToHex cd s (hexId hex) of
        Inl err \<Rightarrow> (Inl err, s)
      | Inr adjacentVertices \<Rightarrow>
          distributeLoop cd
            (s\<lparr>players := creditVertices hex (vertices s) adjacentVertices (players s)\<rparr>) rest)"

definition distributeResources :: "cornerDist \<Rightarrow> GameState \<Rightarrow> nat \<Rightarrow> (error + unit) \<times> GameState" where
  "distributeResources cd s diceRoll =
     distributeLoop cd s
       (filter (\<lambda>hex. numberToken hex = Some diceRoll \<and> \<not> hasRobber hex) (hexes s))"

text \<open>
  \<^verbatim>\<open>discardResources\<close>: the player's cards as an array in map order, shuffled, the first
  \<open>discardCount\<close> of them returned to the bank one by one.
\<close>

definition discardResources ::
  "(nat \<Rightarrow> nat) \<Rightarrow> nat \<Rightarrow> Player \<times> (ResourceType \<times> int) list \<Rightarrow> Player \<times> (ResourceType \<times> int) list" where
  "discardResources pick discardCount pb =
     (let cards = concat (map (\<lambda>(resource, amount). replicate (nat amount) resource)
                            (resources (fst pb)));
          toDiscard = take discardCount (shuffleArray pick cards)
      in fold (\<lambda>resource (player, bk).
                 (player\<lparr>resources := mapSet (resources player) resource
                            (mapGet0 (resources player) resource - 1)\<rparr>,
                  mapSet bk resource (mapGet0 bk resource + 1)))
           toDiscard pb)"

text \<open>
  \<^verbatim>\<open>handleRobberActivation\<close>: \<open>pickD k\<close> is the random source of the shuffle for the
  player at index \<open>k\<close>.
\<close>

fun robberLoop :: "(nat \<Rightarrow> nat \<Rightarrow> nat) \<Rightarrow> nat list \<Rightarrow> GameState \<Rightarrow> GameState" where
  "robberLoop pickD [] s = s"
| "robberLoop pickD (k # ks) s =
     (let player = players s ! k;
          totalResources = sum_list (map snd (resources player))
      in if totalResources > 7 then
           (case discardResources (pickD k) (nat (totalResources div 2)) (player, bank s) of
              (player', bank') \<Rightarrow>
                robberLoop pickD ks (s\<lparr>players := (players s)[k := player'], bank := bank'\<rparr>))
         else robberLoop pickD ks s)"

definition handleRobberActivation :: "(nat \<Rightarrow> nat \<Rightarrow> nat) \<Rightarrow> GameState \<Rightarrow> GameState" where
  "handleRobberActivation pickD s = robberLoop pickD [0..<length (players s)] s"

text \<open>
  \<^verbatim>\<open>rollDice\<close>: \<open>die1\<close> and \<open>die2\<close> are the two values \<^verbatim>\<open>Math.floor(Math.random() * 6) + 1\<close>.
\<close>

definition rollDice ::
  "cornerDist \<Rightarrow> (nat \<Rightarrow> nat \<Rightarrow> nat) \<Rightarrow> nat \<Rightarrow> nat \<Rightarrow> GameState
     \<Rightarrow> (error + nat \<times> nat \<times> nat) \<times> GameState" where
  "rollDice cd pickD die1 die2 s =
     (if diceRolled s then (Inl DiceAlreadyRolled, s)
      else
        (let total = die1 + die2;
             s1 = s\<lparr>diceRolled := True, lastDiceRoll := Some total,
                    lastDie1 := Some die1, lastDie2 := Some die2,
                    rollHistory := mapSet (rollHistory s) total
                                     (mapGet0 (rollHistory s) total + 1)\<rparr>
         in if total = 7
            then (Inr (die1, die2, total), (handleRobberActivation pickD s1)\<lparr>phase := MainPhase\<rparr>)
            else (case distributeResources cd s1 total of
                    (Inl err, s2) \<Rightarrow> (Inl err, s2)
                  | (Inr _, s2) \<Rightarrow> (Inr (die1, die2, total), s2\<lparr>phase := MainPhase\<rparr>))))"

text \<open>
  \<^verbatim>\<open>moveRobber\<close>: every flag is cleared; the target gets the flag only if it exists and is
  not the desert.
\<close>

definition moveRobber :: "GameState \<Rightarrow> nat \<Rightarrow> GameState" where
  "moveRobber s hid =
     (let cleared = map (\<lambda>hex. if hasRobber hex then hex\<lparr>hasRobber := False\<rparr> else hex) (hexes s)
      in case nth_opt cleared hid of
           None \<Rightarrow> s\<lparr>hexes := cleared\<rparr>
         | Some targetHex \<Rightarrow>
             if resourceType targetHex \<noteq> Desert
             then s\<lparr>hexes := cleared[hid := targetHex\<lparr>hasRobber := True\<rparr>]\<rparr>
             else s\<lparr>hexes := cleared\<rparr>)"

text \<open>
  \<^verbatim>\<open>endTurn\<close>: the winner check reads the player at the new index, after the seat has
  advanced; with fewer players than the index it throws, the writes done.
\<close>

definition endTurn :: "GameState \<Rightarrow> (error + unit) \<times> GameState" where
  "endTurn s =
     (let s1 = s\<lparr>diceRolled := False, lastDie1 := None, lastDie2 := None,
                  currentPlayerIndex := (currentPlayerIndex s + 1) mod 4,
                  turnNumber := turnNumber s + 1,
                  phase := RollingDice\<rparr>
      in case nth_opt (players s1) (currentPlayerIndex s1) of
           None \<Rightarrow> (Inl TypeError, s1)
         | Some currentPlayer \<Rightarrow>
             if victoryPoints currentPlayer \<ge> 10 then (Inr (), s1\<lparr>phase := GameOver\<rparr>)
             else (Inr (), s1))"

section \<open>Edges and ports (GameRenderer.connectEdgesToVertices, GameEngine.assignPorts)\<close>

text \<open>
  \<^verbatim>\<open>connectEdgesToVertices\<close>: the pairs \<open>i < j\<close> of vertices in the order of the two nested
  \<^verbatim>\<open>for\<close> loops; a pair whose distance \<^verbatim>\<open>Math.sqrt(dx * dx + dy * dy)\<close> (the parameter \<open>vd\<close>,
  applied to the two positions) lies strictly between \<open>0.8\<close> and \<open>1.2\<close> hex sizes takes the next edge. Both loops stop
  when \<^verbatim>\<open>edgeIndex\<close> reaches the number of edges; \<^verbatim>\<open>edgeIndex\<close> never decreases, so the
  remaining pairs are skipped here.
\<close>

definition vertexPairs :: "Vertex list \<Rightarrow> (Vertex \<times> Vertex) list" where
  "vertexPairs vs =
     concat (map (\<lambda>i. map (\<lambda>j. (vs ! i, vs ! j)) [i + 1..<length vs]) [0..<length vs])"

fun connectLoop ::
  "(real \<times> real \<Rightarrow> real \<times> real \<Rightarrow> real) \<Rightarrow> (Vertex \<times> Vertex) list \<Rightarrow> Edge list \<Rightarrow> nat
     \<Rightarrow> Edge list" where
  "connectLoop vd [] es edgeIndex = es"
| "connectLoop vd ((v1, v2) # rest) es edgeIndex =
     (if edgeIndex < length es \<and> vd (vertexPos v1) (vertexPos v2) > hexSize * 0.8 \<and>
         vd (vertexPos v1) (vertexPos v2) < hexSize * 1.2
      then connectLoop vd rest
             (es[edgeIndex := (es ! edgeIndex)\<lparr>vertex1 := vertexId v1, vertex2 := vertexId v2\<rparr>])
             (edgeIndex + 1)
      else connectLoop vd rest es edgeIndex)"

definition connectEdgesToVertices ::
  "(real \<times> real \<Rightarrow> real \<times> real \<Rightarrow> real) \<Rightarrow> Vertex list \<Rightarrow> Edge list \<Rightarrow> Edge list" where
  "connectEdgesToVertices vd vs es = connectLoop vd (vertexPairs vs) es 0"

text \<open>
  \<^verbatim>\<open>findBorderVertices\<close>: a vertex still at the origin is skipped; a border vertex is near
  at most two hexes.
\<close>

definition findBorderVertices :: "cornerDist \<Rightarrow> GameState \<Rightarrow> nat list" where
  "findBorderVertices cd s =
     filter (\<lambda>vid. let vertex = vertices s ! vid
                   in \<not> (vertexX vertex = 0 \<and> vertexY vertex = 0) \<and>
                      length (filter (nearHex cd vertex) (hexes s)) \<le> 2)
       [0..<length (vertices s)]"

definition findBorderEdges :: "cornerDist \<Rightarrow> GameState \<Rightarrow> nat list" where
  "findBorderEdges cd s =
     (let borderVertices = findBorderVertices cd s
      in filter (\<lambda>eid. let edge = edges s ! eid
                       in vertex1 edge \<in> set borderVertices \<and>
                          vertex2 edge \<in> set borderVertices \<and> road edge = None)
           [0..<length (edges s)])"

definition allPortTypes :: "PortKind list" where
  "allPortTypes =
     [ResourcePort Brick, ResourcePort Wood, ResourcePort Sheep, ResourcePort Wheat,
      ResourcePort Ore, GenericPort, GenericPort, GenericPort, GenericPort]"

text \<open>What \<^verbatim>\<open>assignPorts\<close> writes with \<^verbatim>\<open>console.warn\<close>.\<close>

datatype warning = NotEnoughBorderEdges nat

text \<open>
  \<^verbatim>\<open>assignPorts\<close> returns nothing and throws nothing: with fewer than 9 border edges it
  warns and returns. \<open>ang s eid\<close> is the angle \<^verbatim>\<open>sortEdgesByPerimeterPosition\<close> computes
  with \<^verbatim>\<open>Math.atan2\<close> for the midpoint of an edge; \<^verbatim>\<open>Array.prototype.sort\<close> is stable, as is
  \<^const>\<open>sort_key\<close>.
\<close>

definition assignPorts ::
  "cornerDist \<Rightarrow> (GameState \<Rightarrow> nat \<Rightarrow> real) \<Rightarrow> (nat \<Rightarrow> nat) \<Rightarrow> GameState
     \<Rightarrow> warning list \<times> GameState" where
  "assignPorts cd ang pick s =
     (let borderEdges = findBorderEdges cd s
      in if length borderEdges < 9 then ([NotEnoughBorderEdges (length borderEdges)], s)
         else
           (let shuffledPortTypes = shuffleArray pick allPortTypes;
                sortedBorderEdges = sort_key (ang s) borderEdges;
                portCount = 9;
                interval = length sortedBorderEdges div portCount;
                fixedPortEdges =
                  map (\<lambda>i. sortedBorderEdges ! ((i * interval) mod length sortedBorderEdges))
                    [0..<portCount]
            in ([], fold (\<lambda>i s'. s'\<lparr>edges := (edges s')[fixedPortEdges ! i :=
                                  (edges s' ! (fixedPortEdges ! i))\<lparr>port := Some (shuffledPortTypes ! i)\<rparr>]\<rparr>)
                      [0..<portCount] s)))"

text \<open>
  What \<^verbatim>\<open>GameRenderer.drawBoard\<close> writes into the engine's state, whose arrays it shares:
  \<^verbatim>\<open>calculateVertexPositions\<close> stores the sorted corner positions (the parameter
  \<open>positions\<close>) into the first vertices, \<^verbatim>\<open>connectEdgesToVertices\<close> connects the edges, and
  ports are assigned unless some edge has one.
\<close>

definition calculateVertexPositions :: "(real \<times> real) list \<Rightarrow> Vertex list \<Rightarrow> Vertex list" where
  "calculateVertexPositions positions vs =
     map (\<lambda>index. if index < length positions
                   then (vs ! index)\<lparr>vertexX := fst (positions ! index),
                                      vertexY := snd (positions ! index)\<rparr>
                   else vs ! index)
       [0..<length vs]"

definition drawBoard ::
  "cornerDist \<Rightarrow> (real \<times> real \<Rightarrow> real \<times> real \<Rightarrow> real) \<Rightarrow> (GameState \<Rightarrow> nat \<Rightarrow> real) \<Rightarrow> (nat \<Rightarrow> nat)
     \<Rightarrow> (real \<times> real) list \<Rightarrow> GameState \<Rightarrow> GameState" where
  "drawBoard cd vd ang pick positions s =
     (let vs = calculateVertexPositions positions (vertices s);
          es = connectEdgesToVertices vd vs (edges s);
          s1 = s\<lparr>vertices := vs, edges := es\<rparr>
      in if list_ex (\<lambda>e. port e \<noteq> None) es then s1
         else snd (assignPorts cd ang pick s1))"

section \<open>Reachable states\<close>

text \<open>
  One call of a public operation of the engine, with any arguments and any outcome of
  the random sources, or one redraw of the board by the renderer; a call that throws
  leaves the engine as the throw found it.
\<close>

inductive step :: "cornerDist \<Rightarrow> Engine \<Rightarrow> Engine \<Rightarrow> bool" for cd :: cornerDist where
  stepBuildSettlement: "buildSettlement cd e vid pid = (r, e') \<Longrightarrow> step cd e e'"
| stepBuildRoad: "buildRoad e eid pid vidOpt = (r, e') \<Longrightarrow> step cd e e'"
| stepBuildCity: "buildCity (state e) vid pid = (r, s') \<Longrightarrow> step cd e (e\<lparr>state := s'\<rparr>)"
| stepRollDice:
    "1 \<le> die1 \<Longrightarrow> die1 \<le> 6 \<Longrightarrow> 1 \<le> die2 \<Longrightarrow> die2 \<le> 6 \<Longrightarrow>
     rollDice cd pickD die1 die2 (state e) = (r, s') \<Longrightarrow> step cd e (e\<lparr>state := s'\<rparr>)"
| stepMoveRobber: "step cd e (e\<lparr>state := moveRobber (state e) hid\<rparr>)"
| stepEndTurn: "endTurn (state e) = (r, s') \<Longrightarrow> step cd e (e\<lparr>state := s'\<rparr>)"
| stepDrawBoard: "step cd e (e\<lparr>state := drawBoard cd vd ang pick positions (state e)\<rparr>)"

inductive reachable :: "cornerDist \<Rightarrow> Engine \<Rightarrow> bool" for cd :: cornerDist where
  reachableInit: "reachable cd (newEngine pickR pickN)"
| reachableStep: "reachable cd e \<Longrightarrow> step cd e e' \<Longrightarrow> reachable cd e'"

section \<open>Properties and example inputs\<close>

text \<open>The number of hexes whose \<^verbatim>\<open>hasRobber\<close> flag is set.\<close>

definition robberCount :: "GameState \<Rightarrow> nat" where
  "robberCount s = length (filter hasRobber (hexes s))"

text \<open>
  A random source whose every draw is 0, and a geometry in which no vertex is near any
  corner.
\<close>

definition zeroPick :: "nat \<Rightarrow> nat" where
  "zeroPick i = 0"

definition farAway :: cornerDist where
  "farAway centre i pos = 100"

text \<open>The new game of the all-zero shuffles, and the same after the robber moves to hex 17.\<close>

definition freshEngine :: Engine where
  "freshEngine = newEngine zeroPick zeroPick"

definition robberOnDesert :: Engine where
  "robberOnDesert = freshEngine\<lparr>state := moveRobber (state freshEngine) 17\<rparr>"



definition endpoints :: "Edge \<Rightarrow> nat \<times> nat" where
  "endpoints e = (vertex1 e, vertex2 e)"

text \<open>An angle function under which every edge midpoint has angle 0.\<close>

definition zeroAngle :: "GameState \<Rightarrow> nat \<Rightarrow> real" where
  "zeroAngle s eid = 0"






text \<open>
  The part of the engine the setup machine reads and writes: the phase flag, the round,
  the current seat, and the placement counts of seats 0 to 3.
\<close>

definition setupControl :: "Engine \<Rightarrow> bool \<times> nat \<times> nat \<times> (nat \<times> nat) option list" where
  "setupControl e =
     (initialPlacementPhase (state e), initialPlacementRound (state e),
      currentPlayerIndex (state e),
      map (\<lambda>p. map_option (\<lambda>pl. (settlementsPlaced pl, roadsPlaced pl))
                (map_of (placementsPerPlayer e) p)) [0, 1, 2, 3])"



definition setupStart :: "bool \<times> nat \<times> nat \<times> (nat \<times> nat) option list" where
  "setupStart = (True, 1, 0, [Some (0, 0), Some (0, 0), Some (0, 0), Some (0, 0)])"

text \<open>
  A small board for concrete runs: four players, a brick hex with token 8 at the origin
  and the desert, 16 vertices, vertex \<open>k\<close> at \<open>(k + 1, 0)\<close>, and 8 edges, edge \<open>i\<close> joining
  the vertices \<open>2 i\<close> and \<open>2 i + 1\<close>. In the geometry \<open>miniDist\<close> corner \<open>i\<close> of the hex at
  the origin is at \<open>(i + 1, 0)\<close>, where vertex \<open>i\<close> is, and the desert touches no vertex.
\<close>

definition miniState :: GameState where
  "miniState =
     \<lparr>players =
        [createPlayer 0 ''Player 1'' Red, createPlayer 1 ''Player 2'' Blue,
         createPlayer 2 ''Player 3'' Orange, createPlayer 3 ''Player 4'' White],
      currentPlayerIndex = 0,
      phase = InitialPlacement,
      hexes =
        [\<lparr>hexId = 0, hexX = 0, hexY = 0, resourceType = Brick, numberToken = Some 8,
          hasRobber = False\<rparr>,
         \<lparr>hexId = 1, hexX = 200, hexY = 0, resourceType = Desert, numberToken = None,
          hasRobber = True\<rparr>],
      vertices = map (\<lambda>k. (newVertex k)\<lparr>vertexX := real k + 1\<rparr>)
                   [0, 1, 2, 3, 4, 5, 6, 7, 8, 9, 10, 11, 12, 13, 14, 15],
      edges = map (\<lambda>i. (newEdge i)\<lparr>vertex1 := 2 * i, vertex2 := 2 * i + 1\<rparr>)
                [0, 1, 2, 3, 4, 5, 6, 7],
      diceRolled = False,
      lastDiceRoll = None, lastDie1 = None, lastDie2 = None,
      rollHistory = [],
      bank = initialBank,
      longestRoadPlayer = None, largestArmyPlayer = None,
      longestRoadLength = 5, largestArmySize = 3,
      turnNumber = 0,
      initialPlacementPhase = True,
      initialPlacementRound = 1\<rparr>"


definition miniDist :: cornerDist where
  "miniDist centre i pos = (if centre = (0, 0) \<and> pos = (real i + 1, 0) then 0 else 100)"


text \<open>
  The small board in round 2 with seat 3 to move, every seat having placed one
  settlement and one road (the counters only; the board is still empty).
\<close>

definition roundTwoEngine :: Engine where
  "roundTwoEngine =
     \<lparr>state = miniState\<lparr>currentPlayerIndex := 3, initialPlacementRound := 2\<rparr>,
      placementsPerPlayer =
        [(0, \<lparr>settlementsPlaced = 1, roadsPlaced = 1\<rparr>),
         (1, \<lparr>settlementsPlaced = 1, roadsPlaced = 1\<rparr>),
         (2, \<lparr>settlementsPlaced = 1, roadsPlaced = 1\<rparr>),
         (3, \<lparr>settlementsPlaced = 1, roadsPlaced = 1\<rparr>)]\<rparr>"




text \<open>
  The small board in the main game: seat 0 (red, 9 victory points) is the current
  player and has not rolled; red has a settlement on vertex 0 and a road on edge 0, blue
  a settlement on vertex 2, orange a city on vertex 4; every player holds 5 cards of
  each resource.
\<close>

definition richPlayer :: "nat \<Rightarrow> string \<Rightarrow> PlayerColor \<Rightarrow> int \<Rightarrow> Player" where
  "richPlayer i nm c vp =
     (createPlayer i nm c)\<lparr>
        resources := [(Brick, 5), (Wood, 5), (Sheep, 5), (Wheat, 5), (Ore, 5)],
        victoryPoints := vp\<rparr>"

definition built :: "nat \<Rightarrow> BuildingKind \<Rightarrow> PlayerColor \<Rightarrow> Vertex" where
  "built k b c =
     \<lparr>vertexId = k, vertexX = real k + 1, vertexY = 0, building = Some b, playerColor = Some c\<rparr>"

definition mainState :: GameState where
  "mainState =
     miniState\<lparr>
       players := [richPlayer 0 ''Player 1'' Red 9, richPlayer 1 ''Player 2'' Blue 2,
                   richPlayer 2 ''Player 3'' Orange 2, richPlayer 3 ''Player 4'' White 2],
       phase := RollingDice,
       vertices := (vertices miniState)[0 := built 0 Settlement Red,
                                        2 := built 2 Settlement Blue,
                                        4 := built 4 City Orange],
       edges := (edges miniState)[0 := (edges miniState ! 0)\<lparr>road := Some Red\<rparr>],
       initialPlacementPhase := False,
       initialPlacementRound := 2\<rparr>"



text \<open>
  The same state at another moment of the turn cycle: another phase, another current
  seat, another value of the dice flag.
\<close>

definition retime :: "GamePhase \<Rightarrow> nat \<Rightarrow> bool \<Rightarrow> GameState \<Rightarrow> GameState" where
  "retime ph c d s = s\<lparr>phase := ph, currentPlayerIndex := c, diceRolled := d\<rparr>"

text \<open>The main-game board in an engine, and the same in the game-over phase.\<close>

definition mainEngine :: Engine where
  "mainEngine = roundTwoEngine\<lparr>state := mainState\<rparr>"

definition gameOverEngine :: Engine where
  "gameOverEngine = roundTwoEngine\<lparr>state := mainState\<lparr>phase := GameOver\<rparr>\<rparr>"

text \<open>
  Every player's \<^verbatim>\<open>id\<close>, and the recorded holder of the longest road, is a position in
  the player array, as in every game \<^verbatim>\<open>initializeGame\<close> creates.
\<close>

definition playersInRange :: "GameState \<Rightarrow> bool" where
  "playersInRange s \<longleftrightarrow>
     list_all (\<lambda>p. playerId p < length (players s)) (players s) \<and>
     (case longestRoadPlayer s of None \<Rightarrow> True | Some prev \<Rightarrow> prev < length (players s))"

text \<open>
  A board of roads in the main game. Edges 0 to 5 form a straight chain through the
  vertices 0 to 6; edges 6 to 10 form a Y at vertex 10 with branches of 2, 2 and 1
  edges. Red owns the first five edges of the chain and holds the longest-road bonus
  (its 4 victory points include the 2 of the bonus); blue owns the Y.
\<close>

definition link :: "nat \<Rightarrow> nat \<Rightarrow> nat \<Rightarrow> PlayerColor option \<Rightarrow> Edge" where
  "link i a b owner = \<lparr>edgeId = i, vertex1 = a, vertex2 = b, road = owner, port = None\<rparr>"

definition roadState :: GameState where
  "roadState =
     miniState\<lparr>
       players := [(richPlayer 0 ''Player 1'' Red 4)\<lparr>roads := 5, hasLongestRoad := True\<rparr>,
                   (richPlayer 1 ''Player 2'' Blue 2)\<lparr>roads := 5\<rparr>,
                   richPlayer 2 ''Player 3'' Orange 2, richPlayer 3 ''Player 4'' White 2],
       phase := MainPhase,
       edges := [link 0 0 1 (Some Red), link 1 1 2 (Some Red), link 2 2 3 (Some Red),
                 link 3 3 4 (Some Red), link 4 4 5 (Some Red), link 5 5 6 None,
                 link 6 10 11 (Some Blue), link 7 11 12 (Some Blue),
                 link 8 10 13 (Some Blue), link 9 13 14 (Some Blue),
                 link 10 10 15 (Some Blue)],
       diceRolled := True,
       longestRoadPlayer := Some 0,
       initialPlacementPhase := False,
       initialPlacementRound := 2\<rparr>"

definition roadEngine :: Engine where
  "roadEngine = roundTwoEngine\<lparr>state := roadState\<rparr>"

text \<open>
  The longest trail as the specification words it (section 4.6), for comparison with
  \<^verbatim>\<open>calculateLongestRoad\<close>: a walk along roads of one colour that never reuses an edge.
  \<open>specTrailFrom s c v used\<close> is the greatest number of further edges of a trail that
  stands at vertex \<open>v\<close> and has used the edges \<open>used\<close>; each step leaves \<open>v\<close> by an unused
  edge of the colour and continues from the other end of that edge.
\<close>

function specTrailFrom :: "GameState \<Rightarrow> PlayerColor \<Rightarrow> nat \<Rightarrow> nat list \<Rightarrow> nat"
  and specTrailLoop :: "GameState \<Rightarrow> PlayerColor \<Rightarrow> nat \<Rightarrow> nat list \<Rightarrow> nat list \<Rightarrow> nat \<Rightarrow> nat" where
  "specTrailFrom s c v used = specTrailLoop s c v used (getEdgesConnectedToVertex s v) 0"
| "specTrailLoop s c v used [] best = best"
| "specTrailLoop s c v used (e # rest) best =
     (if e \<notin> set used \<and> e < length (edges s) \<and> road (edges s ! e) = Some c
      then specTrailLoop s c v used rest
             (max best (1 + specTrailFrom s c
                (if vertex1 (edges s ! e) = v then vertex2 (edges s ! e) else vertex1 (edges s ! e))
                (e # used)))
      else specTrailLoop s c v used rest best)"
  by pat_completeness auto
termination
proof (relation "inv_image (less_than <*lex*> less_than <*lex*> less_than)
    (\<lambda>x. case x of
        Inl (s, c, v, used) \<Rightarrow> (card ({..<length (edges s)} - set used), 1::nat, 0::nat)
      | Inr (s, c, v, used, pending, best) \<Rightarrow>
          (card ({..<length (edges s)} - set used), 0, length pending))", goal_cases)
  case 1
  show ?case by (intro wf_inv_image wf_lex_prod wf_less_than)
next
  case 2
  show ?case by simp
next
  case (3 s c v used e rest best)
  then have "e \<in> {..<length (edges s)} - set used" by simp
  then have "card ({..<length (edges s)} - set used - {e})
               < card ({..<length (edges s)} - set used)"
    by (intro card_Diff1_less) simp_all
  moreover have "{..<length (edges s)} - set (e # used) = {..<length (edges s)} - set used - {e}"
    by auto
  ultimately show ?case by simp
next
  case 4
  show ?case by simp
next
  case 5
  show ?case by simp
qed

text \<open>The longest trail of a colour: the best over the start vertices.\<close>

fun specStartLoop :: "GameState \<Rightarrow> PlayerColor \<Rightarrow> nat list \<Rightarrow> nat \<Rightarrow> nat" where
  "specStartLoop s c [] best = best"
| "specStartLoop s c (v # vs) best = specStartLoop s c vs (max best (specTrailFrom s c v []))"

definition specLongestTrail :: "GameState \<Rightarrow> PlayerColor \<Rightarrow> nat" where
  "specLongestTrail s c = specStartLoop s c [0..<length (vertices s)] 0"

section \<open>The board after construction\<close>

lemma shuffleLoop_Nil: "shuffleLoop pick i [] = []"
  by (induction i) (simp_all add: Let_def)

lemma mset_shuffleLoop: "i < length xs \<or> xs = [] \<Longrightarrow> mset (shuffleLoop pick i xs) = mset xs"
proof (induction i arbitrary: xs)
  case 0
  show ?case by simp
next
  case (Suc i)
  show ?case
  proof (cases "xs = []")
    case True
    then show ?thesis by (simp add: shuffleLoop_Nil)
  next
    case False
    with Suc.prems have lt: "Suc i < length xs" by simp
    let ?j = "pick (Suc i) mod (Suc i + 1)"
    have "?j < Suc i + 1" by (rule mod_less_divisor) simp
    then have j: "?j < length xs" using lt by linarith
    let ?ys = "xs[Suc i := xs ! ?j, ?j := xs ! Suc i]"
    have "mset ?ys = mset xs" using j lt by (rule mset_swap)
    moreover have "mset (shuffleLoop pick i ?ys) = mset ?ys"
      by (rule Suc.IH) (use lt in simp)
    ultimately show ?thesis by (simp add: Let_def)
  qed
qed

lemma mset_shuffleArray: "mset (shuffleArray pick xs) = mset xs"
  unfolding shuffleArray_def by (rule mset_shuffleLoop) (cases xs; simp)

lemma length_shuffleArray: "length (shuffleArray pick xs) = length xs"
proof -
  have "size (mset (shuffleArray pick xs)) = size (mset xs)"
    by (simp only: mset_shuffleArray)
  then show ?thesis by simp
qed

lemma length_placeHexes: "length (placeHexes rs ns cells k j) = length cells"
  by (induction cells arbitrary: k j) (auto simp: Let_def)

lemma placeHexes_nth:
  "i < length cells \<Longrightarrow>
   resourceType (placeHexes rs ns cells k j ! i) = rs ! (k + i) \<and>
   hasRobber (placeHexes rs ns cells k j ! i) = (rs ! (k + i) = Desert) \<and>
   hexId (placeHexes rs ns cells k j ! i) = k + i"
proof (induction cells arbitrary: k j i)
  case Nil
  then show ?case by simp
next
  case (Cons c cells)
  obtain row col where c: "c = (row, col)" by (cases c)
  show ?case
  proof (cases i)
    case 0
    then show ?thesis by (simp add: c Let_def)
  next
    case (Suc i')
    with Cons.prems have "i' < length cells" by simp
    from Cons.IH[OF this] show ?thesis by (simp add: c Let_def Suc)
  qed
qed

lemma length_layoutCells: "length layoutCells = 19"
  by (simp add: layoutCells_def layout_def)

lemma count_Desert_board: "count (mset boardResources) Desert = 1"
  by (simp add: boardResources_def)


lemma createBoard_hasRobber:
  "map hasRobber (fst (createBoard pickR pickN)) = map (\<lambda>r. r = Desert) (shuffleArray pickR boardResources)"
proof (rule nth_equalityI)
  show "length (map hasRobber (fst (createBoard pickR pickN))) =
        length (map (\<lambda>r. r = Desert) (shuffleArray pickR boardResources))"
    by (simp add: createBoard_def Let_def length_placeHexes length_layoutCells
        length_shuffleArray boardResources_def)
next
  fix i assume "i < length (map hasRobber (fst (createBoard pickR pickN)))"
  then have i: "i < length layoutCells"
    by (simp add: createBoard_def Let_def length_placeHexes)
  then have i19: "i < 19" by (simp add: length_layoutCells)
  have "hasRobber (fst (createBoard pickR pickN) ! i) = (shuffleArray pickR boardResources ! i = Desert)"
    using placeHexes_nth[OF i, of "shuffleArray pickR boardResources" _ 0 0]
    by (simp add: createBoard_def Let_def)
  then show "map hasRobber (fst (createBoard pickR pickN)) ! i =
        map (\<lambda>r. r = Desert) (shuffleArray pickR boardResources) ! i"
    using i i19 by (simp add: createBoard_def Let_def length_placeHexes length_shuffleArray boardResources_def)
qed

lemma filter_eq_count: "length (filter (\<lambda>r. r = x) rs) = count (mset rs) x"
  by (induction rs) auto

lemma createBoard_one_robber:
  "length (filter hasRobber (fst (createBoard pickR pickN))) = 1"
proof -
  have "length (filter hasRobber (fst (createBoard pickR pickN)))
        = length (filter id (map hasRobber (fst (createBoard pickR pickN))))"
    by (simp add: filter_map comp_def)
  also have "\<dots> = length (filter (\<lambda>r. r = Desert) (shuffleArray pickR boardResources))"
    by (simp add: createBoard_hasRobber filter_map comp_def)
  also have "\<dots> = 1"
    by (simp add: filter_eq_count mset_shuffleArray count_Desert_board)
  finally show ?thesis .
qed

section \<open>Operations that leave the hexes alone\<close>

lemma hexes_giveInitialResources:
  "giveInitialResources cd s vid pid = Inr s' \<Longrightarrow> hexes s' = hexes s"
  by (auto simp: giveInitialResources_def Let_def split: sum.splits option.splits if_splits)

lemma hexes_placeInitialSettlement:
  "hexes (state (snd (placeInitialSettlement cd e vid pid))) = hexes (state e)"
  by (auto simp: placeInitialSettlement_def Let_def
      split: sum.splits option.splits dest: hexes_giveInitialResources)

lemma hexes_buildSettlementMain: "hexes (snd (buildSettlementMain s vid pid)) = hexes s"
  by (auto simp: buildSettlementMain_def split: sum.splits option.splits)

lemma hexes_buildSettlement:
  "hexes (state (snd (buildSettlement cd e vid pid))) = hexes (state e)"
  by (simp add: buildSettlement_def hexes_placeInitialSettlement hexes_buildSettlementMain
      split: prod.splits)
    (metis hexes_buildSettlementMain snd_conv)

lemma hexes_placeInitialRoad:
  "hexes (state (snd (placeInitialRoad e eid pid vid))) = hexes (state e)"
  by (auto simp: placeInitialRoad_def Let_def split: sum.splits)

lemma hexes_advanceToNextPlayer: "hexes (advanceToNextPlayer s) = hexes s"
  by (simp add: advanceToNextPlayer_def)

lemma hexes_removeFromPrevious: "removeFromPrevious s = Inr s' \<Longrightarrow> hexes s' = hexes s"
  by (auto simp: removeFromPrevious_def split: option.splits if_splits)

lemma hexes_updateLongestRoad: "hexes (snd (updateLongestRoad s)) = hexes s"
  by (auto simp: updateLongestRoad_def split: sum.splits option.splits prod.splits
      dest: hexes_removeFromPrevious)

lemma hexes_buildRoadMain: "hexes (snd (buildRoadMain s eid pid)) = hexes s"
proof -
  have *: "\<And>t r t'. updateLongestRoad t = (r, t') \<Longrightarrow> hexes t' = hexes t"
    by (metis hexes_updateLongestRoad snd_conv)
  show ?thesis
    by (auto simp: buildRoadMain_def split: sum.splits option.splits prod.splits dest!: *)
qed

lemma hexes_buildRoad: "hexes (state (snd (buildRoad e eid pid vidOpt))) = hexes (state e)"
proof -
  have a: "\<And>vid r e'. placeInitialRoad e eid pid vid = (r, e') \<Longrightarrow> hexes (state e') = hexes (state e)"
    by (metis hexes_placeInitialRoad snd_conv)
  have b: "\<And>r s'. buildRoadMain (state e) eid pid = (r, s') \<Longrightarrow> hexes s' = hexes (state e)"
    by (metis hexes_buildRoadMain snd_conv)
  show ?thesis
    by (auto simp: buildRoad_def Let_def hexes_advanceToNextPlayer
        split: sum.splits option.splits prod.splits if_splits dest: a b)
qed

lemma hexes_buildCity: "hexes (snd (buildCity s vid pid)) = hexes s"
  by (auto simp: buildCity_def split: option.splits)

lemma hexes_distributeLoop: "hexes (snd (distributeLoop cd s hs)) = hexes s"
  by (induction hs arbitrary: s) (auto split: sum.splits)

lemma hexes_robberLoop: "hexes (robberLoop pickD ks s) = hexes s"
  by (induction ks arbitrary: s) (auto simp: Let_def split: prod.splits)

lemma hexes_rollDice: "hexes (snd (rollDice cd pickD d1 d2 s)) = hexes s"
proof -
  have *: "\<And>t n r t'. distributeResources cd t n = (r, t') \<Longrightarrow> hexes t' = hexes t"
    unfolding distributeResources_def by (metis hexes_distributeLoop snd_conv)
  show ?thesis
    by (auto simp: rollDice_def Let_def handleRobberActivation_def hexes_robberLoop
        split: prod.splits sum.splits dest!: *)
qed

lemma hexes_endTurn: "hexes (snd (endTurn s)) = hexes s"
  by (auto simp: endTurn_def Let_def split: option.splits)

lemma hexes_assignPorts: "hexes (snd (assignPorts cd ang pick s)) = hexes s"
proof -
  have "hexes (fold (\<lambda>i s'. s'\<lparr>edges := f i s'\<rparr>) is s) = hexes s" for f :: "nat \<Rightarrow> GameState \<Rightarrow> Edge list" and "is"
    by (induction "is" arbitrary: s) auto
  then show ?thesis by (simp add: assignPorts_def Let_def)
qed

lemma hexes_drawBoard: "hexes (drawBoard cd vd ang pick positions s) = hexes s"
  by (simp add: drawBoard_def Let_def hexes_assignPorts)

lemma step_hexes:
  assumes "step cd e e'"
  shows "hexes (state e') = hexes (state e) \<or> (\<exists>hid. hexes (state e') = hexes (moveRobber (state e) hid))"
  using assms
proof cases
  case (stepBuildSettlement vid pid r)
  then show ?thesis using hexes_buildSettlement[of cd e vid pid] by simp
next
  case (stepBuildRoad eid pid vidOpt r)
  then show ?thesis using hexes_buildRoad[of e eid pid vidOpt] by simp
next
  case (stepBuildCity vid pid r s')
  then show ?thesis using hexes_buildCity[of "state e" vid pid] by simp
next
  case (stepRollDice die1 die2 pickD r s')
  then show ?thesis using hexes_rollDice[of cd pickD die1 die2 "state e"] by simp
next
  case (stepMoveRobber hid)
  then show ?thesis by auto
next
  case (stepEndTurn r s')
  then show ?thesis using hexes_endTurn[of "state e"] by simp
next
  case (stepDrawBoard vd ang pick positions)
  then show ?thesis by (simp add: hexes_drawBoard)
qed

section \<open>The robber (claim C2)\<close>

lemma filter_update_one:
  assumes "\<forall>x\<in>set xs. \<not> P x" and "i < length xs" and "P y"
  shows "length (filter P (xs[i := y])) = 1"
proof -
  have "xs[i := y] = take i xs @ y # drop (Suc i) xs"
    using assms(2) by (rule upd_conv_take_nth_drop)
  moreover have "filter P (take i xs) = []"
    using assms(1) by (auto simp: filter_empty_conv dest: in_set_takeD)
  moreover have "filter P (drop (Suc i) xs) = []"
    using assms(1) by (auto simp: filter_empty_conv dest: in_set_dropD)
  ultimately show ?thesis using assms(3) by simp
qed

lemma clear_robber:
  "filter hasRobber (map (\<lambda>hex. if hasRobber hex then hex\<lparr>hasRobber := False\<rparr> else hex) hs) = []"
  by (induction hs) auto

lemma robberCount_moveRobber:
  "robberCount (moveRobber s hid) =
     (if hid < length (hexes s) \<and> resourceType (hexes s ! hid) \<noteq> Desert then 1 else 0)"
proof -
  let ?cleared = "map (\<lambda>hex. if hasRobber hex then hex\<lparr>hasRobber := False\<rparr> else hex) (hexes s)"
  have empty: "filter hasRobber ?cleared = []" by (rule clear_robber)
  have none: "\<forall>x\<in>set ?cleared. \<not> hasRobber x"
    using empty by (simp only: filter_empty_conv)
  show ?thesis
  proof (cases "hid < length (hexes s) \<and> resourceType (hexes s ! hid) \<noteq> Desert")
    case True
    then have lt: "hid < length ?cleared" by simp
    have rt: "resourceType (?cleared ! hid) \<noteq> Desert" using True by simp
    have "length (filter hasRobber (?cleared[hid := (?cleared ! hid)\<lparr>hasRobber := True\<rparr>])) = 1"
      using none lt by (rule filter_update_one) simp
    then show ?thesis using True lt rt
      by (simp add: robberCount_def moveRobber_def Let_def nth_opt_def)
  next
    case False
    then show ?thesis using empty
      by (auto simp: robberCount_def moveRobber_def Let_def nth_opt_def)
  qed
qed

lemma robberCount_newEngine: "robberCount (state (newEngine pickR pickN)) = 1"
  using createBoard_one_robber[of pickR pickN]
  by (auto simp: robberCount_def newEngine_def Let_def initializeGame_def split: prod.splits)

lemma step_robberCount:
  assumes "step cd e e'" and "robberCount (state e) \<le> 1"
  shows "robberCount (state e') \<le> 1"
proof -
  from step_hexes[OF assms(1)] show ?thesis
  proof
    assume "hexes (state e') = hexes (state e)"
    then show ?thesis using assms(2) by (simp add: robberCount_def)
  next
    assume "\<exists>hid. hexes (state e') = hexes (moveRobber (state e) hid)"
    then obtain hid where "hexes (state e') = hexes (moveRobber (state e) hid)" ..
    then have "robberCount (state e') = robberCount (moveRobber (state e) hid)"
      by (simp add: robberCount_def)
    then show ?thesis by (simp add: robberCount_moveRobber)
  qed
qed

lemma reachable_robberCount: "reachable cd e \<Longrightarrow> robberCount (state e) \<le> 1"
proof (induction rule: reachable.induct)
  case (reachableInit pickR pickN)
  show ?case by (simp add: robberCount_newEngine)
next
  case (reachableStep e e')
  then show ?case by (blast intro: step_robberCount)
qed

lemma flags_moveRobber:
  "map hasRobber (hexes (moveRobber s hid)) =
     map (\<lambda>k. k = hid \<and> resourceType (hexes s ! k) \<noteq> Desert) [0..<length (hexes s)]"
proof (rule nth_equalityI)
  show "length (map hasRobber (hexes (moveRobber s hid))) =
        length (map (\<lambda>k. k = hid \<and> resourceType (hexes s ! k) \<noteq> Desert) [0..<length (hexes s)])"
    by (simp add: moveRobber_def Let_def nth_opt_def)
next
  fix k
  assume "k < length (map hasRobber (hexes (moveRobber s hid)))"
  then have k: "k < length (hexes s)"
    by (simp add: moveRobber_def Let_def nth_opt_def split: if_splits)
  then show "map hasRobber (hexes (moveRobber s hid)) ! k =
        map (\<lambda>k. k = hid \<and> resourceType (hexes s ! k) \<noteq> Desert) [0..<length (hexes s)] ! k"
    by (simp add: moveRobber_def Let_def nth_opt_def nth_list_update)
qed

text \<open>
  Claim C2, as amended. A new game has exactly one hex with the robber. In every state
  reachable by the public operations (and the renderer's redraws) at most one hex has
  the robber; \<^verbatim>\<open>moveRobber\<close> onto an existing hex that is not the desert leaves exactly
  one, and \<^verbatim>\<open>moveRobber\<close> onto the desert or onto a hex id out of range leaves none:
  after \<^verbatim>\<open>moveRobber(hid)\<close> in any state the flag of hex \<open>k\<close> is set exactly when \<open>k\<close> is
  \<open>hid\<close> and that hex is not the desert. No other operation changes the flags:
  \<^verbatim>\<open>buildSettlement\<close> and \<^verbatim>\<open>buildRoad\<close> (in the setup phase and after it), \<^verbatim>\<open>buildCity\<close>,
  \<^verbatim>\<open>rollDice\<close>, \<^verbatim>\<open>endTurn\<close> and the renderer's \<^verbatim>\<open>drawBoard\<close> return or leave behind, also
  when they throw, a state with the hexes they found.
\<close>

theorem robber_on_at_most_one_hex:
  "robberCount (state (newEngine pickR pickN)) = 1 \<and>
   (reachable cd e \<longrightarrow>
      robberCount (state e) \<le> 1 \<and>
      robberCount (moveRobber (state e) hid) =
        (if hid < length (hexes (state e)) \<and> resourceType (hexes (state e) ! hid) \<noteq> Desert
         then 1 else 0)) \<and>
   map hasRobber (hexes (moveRobber s hid)) =
     map (\<lambda>k. k = hid \<and> resourceType (hexes s ! k) \<noteq> Desert) [0..<length (hexes s)] \<and>
   hexes (state (snd (buildSettlement cd e1 vid pid))) = hexes (state e1) \<and>
   hexes (state (snd (buildRoad e1 eid pid vidOpt))) = hexes (state e1) \<and>
   hexes (snd (buildCity s vid pid)) = hexes s \<and>
   hexes (snd (rollDice cd pickD die1 die2 s)) = hexes s \<and>
   hexes (snd (endTurn s)) = hexes s \<and>
   hexes (drawBoard cd vd ang pick positions s) = hexes s"
  using reachable_robberCount[of cd e]
  by (simp add: robberCount_newEngine robberCount_moveRobber flags_moveRobber
      hexes_buildSettlement hexes_buildRoad hexes_buildCity hexes_rollDice hexes_endTurn
      hexes_drawBoard)

lemma reachable_freshEngine: "reachable cd freshEngine"
  unfolding freshEngine_def by (rule reachableInit)

lemma reachable_robberOnDesert: "reachable cd robberOnDesert"
  unfolding robberOnDesert_def
  by (rule reachableStep[OF reachable_freshEngine]) (rule stepMoveRobber)


lemma shuffled_zero: "shuffleArray zeroPick boardResources ! 17 = Desert"
  by code_simp

lemma freshEngine_hexes:
  "length (hexes (state freshEngine)) = 19 \<and> resourceType (hexes (state freshEngine) ! 17) = Desert"
  using placeHexes_nth[of 17 layoutCells "shuffleArray zeroPick boardResources" "shuffleArray zeroPick NUMBER_TOKENS" 0 0]
  by (simp add: freshEngine_def newEngine_def Let_def initializeGame_def createBoard_def
      length_placeHexes length_layoutCells shuffled_zero)

theorem robber_on_at_most_one_hex_witness:
  "reachable farAway robberOnDesert \<and> robberCount (state robberOnDesert) \<le> 1 \<and>
   robberCount (moveRobber (state robberOnDesert) 17) = 0"
  using robber_on_at_most_one_hex[where pickR = zeroPick and pickN = zeroPick and cd = farAway
      and e = robberOnDesert and hid = 17]
    reachable_robberOnDesert[of farAway] freshEngine_hexes
  by (simp add: robberOnDesert_def moveRobber_def Let_def nth_opt_def)

text \<open>
  Claim C2 as stated fails: in the new game of the all-zero shuffles the desert is hex
  17, and after \<^verbatim>\<open>moveRobber(17)\<close> no hex holds the robber.
\<close>

theorem robber_missing_counterexample:
  "reachable farAway robberOnDesert \<and> robberCount (state robberOnDesert) = 0"
  using reachable_robberOnDesert[of farAway] freshEngine_hexes
  by (simp add: robberOnDesert_def robberCount_moveRobber)

section \<open>Board construction (claim C9)\<close>






lemma createBoard_parts:
  "length (fst (createBoard pickR pickN)) = 19"
  "fst (snd (createBoard pickR pickN)) = map newVertex [0..<54]"
  "snd (snd (createBoard pickR pickN)) = map newEdge [0..<72]"
  by (simp_all add: createBoard_def Let_def length_placeHexes length_layoutCells)




section \<open>Port assignment (claim C8)\<close>

lemma newEngine_board:
  "vertices (state (newEngine pickR pickN)) = map newVertex [0..<54]"
  "edges (state (newEngine pickR pickN)) = map newEdge [0..<72]"
  by (simp_all add: newEngine_def initializeGame_def Let_def createBoard_parts split_beta)

lemma findBorderVertices_origin:
  assumes "\<forall>v\<in>set (vertices s). vertexX v = 0 \<and> vertexY v = 0"
  shows "findBorderVertices cd s = []"
  using assms by (auto simp: findBorderVertices_def filter_empty_conv Let_def)

lemma findBorderEdges_newEngine: "findBorderEdges cd (state (newEngine pickR pickN)) = []"
proof -
  have "findBorderVertices cd (state (newEngine pickR pickN)) = []"
    by (rule findBorderVertices_origin) (auto simp: newEngine_board newVertex_def)
  then show ?thesis by (simp add: findBorderEdges_def Let_def)
qed

text \<open>
  Claim C8, as amended. With fewer than 9 eligible border edges \<^verbatim>\<open>assignPorts\<close> writes a
  console warning with the number found and returns: nothing is thrown, no port is
  assigned, and the state is the one it was called on.
\<close>

theorem assignPorts_too_few_border_edges:
  "length (findBorderEdges cd s) < 9 \<Longrightarrow>
   assignPorts cd ang pick s = ([NotEnoughBorderEdges (length (findBorderEdges cd s))], s)"
  by (simp add: assignPorts_def Let_def)

theorem assignPorts_too_few_border_edges_witness:
  "length (findBorderEdges farAway (state freshEngine)) < 9 \<and>
   assignPorts farAway zeroAngle zeroPick (state freshEngine) =
     ([NotEnoughBorderEdges 0], state freshEngine)"
  using assignPorts_too_few_border_edges[of farAway "state freshEngine" zeroAngle zeroPick]
  by (simp add: freshEngine_def findBorderEdges_newEngine)

lemma newEngine_control:
  "currentPlayerIndex (state (newEngine pickR pickN)) = 0"
  "initialPlacementPhase (state (newEngine pickR pickN))"
  "initialPlacementRound (state (newEngine pickR pickN)) = 1"
  "phase (state (newEngine pickR pickN)) = InitialPlacement"
  "players (state (newEngine pickR pickN)) =
     [createPlayer 0 ''Player 1'' Red, createPlayer 1 ''Player 2'' Blue,
      createPlayer 2 ''Player 3'' Orange, createPlayer 3 ''Player 4'' White]"
  "placementsPerPlayer (newEngine pickR pickN) =
     [(0, \<lparr>settlementsPlaced = 0, roadsPlaced = 0\<rparr>), (1, \<lparr>settlementsPlaced = 0, roadsPlaced = 0\<rparr>),
      (2, \<lparr>settlementsPlaced = 0, roadsPlaced = 0\<rparr>), (3, \<lparr>settlementsPlaced = 0, roadsPlaced = 0\<rparr>)]"
  by (simp_all add: newEngine_def initializeGame_def Let_def split_beta mapSet_def createPlayer_def)

lemma fold_placeholders:
  "fold (\<lambda>edge adjacent.
        if vertex1 edge = 0 then setAdd adjacent (vertex2 edge)
        else if vertex2 edge = 0 then setAdd adjacent (vertex1 edge)
        else adjacent) (map newEdge ns) acc = (if ns = [] then acc else setAdd acc 0)"
  by (induction ns arbitrary: acc) (auto simp: newEdge_def setAdd_def)

lemma newEngine_adjacent: "getAdjacentVertices (state (newEngine pickR pickN)) 0 = [0]"
  by (simp add: getAdjacentVertices_def newEngine_board fold_placeholders setAdd_def)

lemma freshEngine_first_settlement: "fst (buildSettlement farAway freshEngine 0 0) = Inr True"
  by (simp add: buildSettlement_def placeInitialSettlement_def canPlaceSettlement_def
      freshEngine_def newEngine_board newEngine_control Let_def checkDistanceRule_def
      newEngine_adjacent nth_opt_def newVertex_def createPlayer_def)

text \<open>
  Claim C8 as stated fails: on a new game, whose vertices are still at the origin, no
  border edge is found; the call returns with the state unchanged and no port on any
  edge, and the game goes on: seat 0 places its first settlement.
\<close>

theorem ports_skipped_counterexample:
  "assignPorts farAway zeroAngle zeroPick (state freshEngine) =
     ([NotEnoughBorderEdges 0], state freshEngine) \<and>
   list_all (\<lambda>e. port e = None) (edges (state freshEngine)) \<and>
   fst (buildSettlement farAway freshEngine 0 0) = Inr True"
proof -
  have "list_all (\<lambda>e. port e = None) (edges (state freshEngine))"
    by (simp add: freshEngine_def newEngine_board list_all_iff newEdge_def)
  then show ?thesis
    using freshEngine_first_settlement
    by (simp add: assignPorts_def Let_def freshEngine_def findBorderEdges_newEngine)
qed

section \<open>The setup sequence (claim C5)\<close>















lemma setupControl_newEngine: "setupControl (newEngine pickR pickN) = setupStart"
  by (simp add: setupControl_def setupStart_def newEngine_control)




section \<open>Resources of the second settlement (claim C6)\<close>











section \<open>Production on a roll (claim C1)\<close>





















section \<open>Builds outside the setup phase (claims C10 and C4)\<close>

lemma connected_frame:
  "edges s' = edges s \<Longrightarrow> getEdgesConnectedToVertex s' v = getEdgesConnectedToVertex s v"
  by (simp add: getEdgesConnectedToVertex_def)

lemma longest_path_frame:
  "edges s' = edges s \<Longrightarrow> players s' = players s \<Longrightarrow>
   findLongestPathFromEdge s' eid pid visited = findLongestPathFromEdge s eid pid visited"
  "edges s' = edges s \<Longrightarrow> players s' = players s \<Longrightarrow>
   nextLoop s' eid pid visited pending m = nextLoop s eid pid visited pending m"
proof (induction s eid pid visited and s eid pid visited pending m arbitrary: s' and s'
    rule: findLongestPathFromEdge_nextLoop.induct)
  case (1 s eid pid visited)
  show ?case
  proof (cases "nth_opt (edges s) eid")
    case None
    then show ?thesis using "1.prems" by simp
  next
    case (Some edge)
    from "1.IH"[OF Some "1.prems"] show ?thesis
      using "1.prems" Some by (simp add: connected_frame[OF "1.prems"(1)])
  qed
next
  case (2 s eid pid visited maxLength)
  show ?case by simp
next
  case (3 s eid pid visited nextEdgeId rest maxLength)
  show ?case
  proof (cases "nextEdgeId \<noteq> eid \<and> nextEdgeId \<notin> set visited")
    case False
    from "3.IH"(4)[OF False "3.prems"] show ?thesis using False by auto
  next
    case go: True
    show ?thesis
    proof (cases "nth_opt (edges s) nextEdgeId")
      case None
      then show ?thesis using go "3.prems" by simp
    next
      case (Some nextEdge)
      show ?thesis
      proof (cases "nth_opt (players s) pid")
        case None
        then show ?thesis using go Some "3.prems" by simp
      next
        case (Some player)
        note pl = this
        show ?thesis
        proof (cases "road nextEdge = Some (color player)")
          case False
          from "3.IH"(3)[OF go \<open>nth_opt (edges s) nextEdgeId = Some nextEdge\<close> pl False "3.prems"]
          show ?thesis
            using go \<open>nth_opt (edges s) nextEdgeId = Some nextEdge\<close> pl False "3.prems" by simp
        next
          case True
          note r = this
          have f: "findLongestPathFromEdge s' nextEdgeId pid visited =
                   findLongestPathFromEdge s nextEdgeId pid visited"
            by (rule "3.IH"(1)[OF go \<open>nth_opt (edges s) nextEdgeId = Some nextEdge\<close> pl r "3.prems"])
          show ?thesis
          proof (cases "findLongestPathFromEdge s nextEdgeId pid visited")
            case (Inl err)
            then show ?thesis
              using go \<open>nth_opt (edges s) nextEdgeId = Some nextEdge\<close> pl r "3.prems" f by simp
          next
            case (Inr len)
            from "3.IH"(2)[OF go \<open>nth_opt (edges s) nextEdgeId = Some nextEdge\<close> pl r Inr "3.prems"]
            show ?thesis
              using go \<open>nth_opt (edges s) nextEdgeId = Some nextEdge\<close> pl r "3.prems" f Inr
              by simp
          qed
        qed
      qed
    qed
  qed
qed

lemma retime_fields [simp]:
  "players (retime ph c d s) = players s"
  "edges (retime ph c d s) = edges s"
  "vertices (retime ph c d s) = vertices s"
  "hexes (retime ph c d s) = hexes s"
  "longestRoadPlayer (retime ph c d s) = longestRoadPlayer s"
  "initialPlacementPhase (retime ph c d s) = initialPlacementPhase s"
  "phase (retime ph c d s) = ph"
  "currentPlayerIndex (retime ph c d s) = c"
  "diceRolled (retime ph c d s) = d"
  by (simp_all add: retime_def)

lemma retime_updates:
  "retime ph c d (s\<lparr>players := ps\<rparr>) = (retime ph c d s)\<lparr>players := ps\<rparr>"
  "retime ph c d (s\<lparr>vertices := vs\<rparr>) = (retime ph c d s)\<lparr>vertices := vs\<rparr>"
  "retime ph c d (s\<lparr>edges := es\<rparr>) = (retime ph c d s)\<lparr>edges := es\<rparr>"
  "retime ph c d (s\<lparr>longestRoadPlayer := lp\<rparr>) = (retime ph c d s)\<lparr>longestRoadPlayer := lp\<rparr>"
  "retime ph c d (s\<lparr>longestRoadLength := ll\<rparr>) = (retime ph c d s)\<lparr>longestRoadLength := ll\<rparr>"
  by (simp_all add: retime_def)

lemma calculateLongestRoad_retime:
  "calculateLongestRoad (retime ph c d s) pid = calculateLongestRoad s pid"
proof -
  have f: "findLongestPathFromEdge (retime ph c d s) eid pid visited =
           findLongestPathFromEdge s eid pid visited" for eid visited
    by (rule longest_path_frame(1)) simp_all
  have "startLoop (retime ph c d s) pid starts m = startLoop s pid starts m" for starts m
    by (induction starts arbitrary: m)
       (simp_all add: f del: findLongestPathFromEdge.simps split: sum.splits)
  then show ?thesis by (simp add: calculateLongestRoad_def Let_def split: option.splits)
qed

lemma longestLoop_retime:
  "longestLoop (retime ph c d s) ps acc = longestLoop s ps acc"
proof (induction ps arbitrary: acc)
  case Nil
  show ?case by simp
next
  case (Cons p ps)
  obtain lp ll where acc: "acc = (lp, ll)" by (cases acc)
  show ?case unfolding acc
    by (simp add: calculateLongestRoad_retime Cons.IH split: sum.splits)
qed

lemma removeFromPrevious_retime:
  "removeFromPrevious (retime ph c d s) = map_sum id (retime ph c d) (removeFromPrevious s)"
  by (simp add: removeFromPrevious_def retime_updates split: option.splits)

lemma updateLongestRoad_retime:
  "updateLongestRoad (retime ph c d s) =
     (fst (updateLongestRoad s), retime ph c d (snd (updateLongestRoad s)))"
  by (cases "removeFromPrevious s")
     (auto simp: updateLongestRoad_def longestLoop_retime removeFromPrevious_retime retime_updates
        split: sum.splits option.splits prod.splits)

lemma checkDistanceRule_retime:
  "checkDistanceRule (retime ph c d s) vid = checkDistanceRule s vid"
  by (simp add: checkDistanceRule_def getAdjacentVertices_def)

lemma isRoadConnected_retime:
  "isRoadConnected (retime ph c d s) eid pid = isRoadConnected s eid pid"
proof -
  have g: "getConnectedEdges (retime ph c d s) eid = getConnectedEdges s eid"
    by (cases "nth_opt (edges s) eid") (simp_all add: getConnectedEdges_def)
  show ?thesis
    by (simp add: isRoadConnected_def g cong: option.case_cong sum.case_cong if_cong)
qed

lemma buildSettlementMain_retime:
  "buildSettlementMain (retime ph c d s) vid pid =
     (fst (buildSettlementMain s vid pid), retime ph c d (snd (buildSettlementMain s vid pid)))"
  by (auto simp: buildSettlementMain_def checkDistanceRule_retime retime_updates
      split: option.splits sum.splits)

lemma buildCity_retime:
  "buildCity (retime ph c d s) vid pid =
     (fst (buildCity s vid pid), retime ph c d (snd (buildCity s vid pid)))"
  by (auto simp: buildCity_def retime_updates split: option.splits)

lemma buildRoadMain_retime:
  "buildRoadMain (retime ph c d s) eid pid =
     (fst (buildRoadMain s eid pid), retime ph c d (snd (buildRoadMain s eid pid)))"
proof -
  have u: "updateLongestRoad ((retime ph c d s)\<lparr>edges := es, players := ps\<rparr>) =
     (fst (updateLongestRoad (s\<lparr>edges := es, players := ps\<rparr>)),
      retime ph c d (snd (updateLongestRoad (s\<lparr>edges := es, players := ps\<rparr>))))" for es ps
    using updateLongestRoad_retime[of ph c d "s\<lparr>edges := es, players := ps\<rparr>"]
    by (simp add: retime_updates)
  show ?thesis
    by (auto simp: buildRoadMain_def isRoadConnected_retime u
        split: option.splits sum.splits prod.splits)
qed

lemma connected_in_range: "set (getEdgesConnectedToVertex s v) \<subseteq> {..<length (edges s)}"
  by (auto simp: getEdgesConnectedToVertex_def)

lemma longest_path_returns:
  "eid < length (edges s) \<Longrightarrow> pid < length (players s) \<Longrightarrow>
   \<exists>n. findLongestPathFromEdge s eid pid visited = Inr n"
  "set pending \<subseteq> {..<length (edges s)} \<Longrightarrow> pid < length (players s) \<Longrightarrow>
   \<exists>n. nextLoop s eid pid visited pending m = Inr n"
proof (induction s eid pid visited and s eid pid visited pending m
    rule: findLongestPathFromEdge_nextLoop.induct)
  case (1 s eid pid visited)
  from "1.prems"(1) have e: "nth_opt (edges s) eid = Some (edges s ! eid)"
    by (simp add: nth_opt_def)
  have sub: "set (getEdgesConnectedToVertex s (vertex1 (edges s ! eid)) @
                  getEdgesConnectedToVertex s (vertex2 (edges s ! eid))) \<subseteq> {..<length (edges s)}"
    using connected_in_range by simp
  from "1.IH"[OF e sub "1.prems"(2)] show ?case using e by simp
next
  case (2 s eid pid visited maxLength)
  show ?case by simp
next
  case (3 s eid pid visited nextEdgeId rest maxLength)
  from "3.prems"(1) have n: "nextEdgeId < length (edges s)"
    and rest: "set rest \<subseteq> {..<length (edges s)}" by simp_all
  have e: "nth_opt (edges s) nextEdgeId = Some (edges s ! nextEdgeId)"
    using n by (simp add: nth_opt_def)
  have p: "nth_opt (players s) pid = Some (players s ! pid)"
    using "3.prems"(2) by (simp add: nth_opt_def)
  show ?case
  proof (cases "nextEdgeId \<noteq> eid \<and> nextEdgeId \<notin> set visited")
    case False
    from "3.IH"(4)[OF False rest "3.prems"(2)] show ?thesis using False by auto
  next
    case go: True
    show ?thesis
    proof (cases "road (edges s ! nextEdgeId) = Some (color (players s ! pid))")
      case False
      from "3.IH"(3)[OF go e p False rest "3.prems"(2)] show ?thesis
        using go e p False by simp
    next
      case r: True
      from "3.IH"(1)[OF go e p r n "3.prems"(2)] obtain len where
        len: "findLongestPathFromEdge s nextEdgeId pid visited = Inr len" by blast
      from "3.IH"(2)[OF go e p r len rest "3.prems"(2)] show ?thesis
        using go e p r len by simp
    qed
  qed
qed

lemma startLoop_returns:
  "set starts \<subseteq> {..<length (edges s)} \<Longrightarrow> pid < length (players s) \<Longrightarrow>
   \<exists>n. startLoop s pid starts m = Inr n"
proof (induction starts arbitrary: m)
  case Nil
  show ?case by simp
next
  case (Cons a starts)
  then have "a < length (edges s)" by simp
  from longest_path_returns(1)[OF this Cons.prems(2), of "[]"] obtain len where
    "findLongestPathFromEdge s a pid [] = Inr len" by blast
  moreover from Cons have "\<exists>n. startLoop s pid starts (max m len) = Inr n" by simp
  ultimately show ?case by (simp del: findLongestPathFromEdge.simps)
qed

lemma calculateLongestRoad_returns:
  assumes "pid < length (players s)"
  shows "\<exists>n. calculateLongestRoad s pid = Inr n"
proof -
  let ?roads = "filter (\<lambda>index. road (edges s ! index) = Some (color (players s ! pid)))
                   [0..<length (edges s)]"
  have "set ?roads \<subseteq> {..<length (edges s)}" by auto
  from startLoop_returns[OF this assms, of 0] show ?thesis
    using assms by (auto simp: calculateLongestRoad_def nth_opt_def Let_def)
qed

lemma longestLoop_returns:
  assumes "\<forall>p\<in>set ps. playerId p < length (players s)"
    and "case fst acc of None \<Rightarrow> True | Some lp \<Rightarrow> lp < length (players s)"
  shows "\<exists>lp ll. longestLoop s ps acc = Inr (lp, ll) \<and>
           (case lp of None \<Rightarrow> True | Some k \<Rightarrow> k < length (players s))"
  using assms
proof (induction ps arbitrary: acc)
  case Nil
  then show ?case by (cases acc) simp
next
  case (Cons p ps)
  obtain lp ll where acc: "acc = (lp, ll)" by (cases acc)
  from Cons.prems(1) have p: "playerId p < length (players s)"
    and ps: "\<forall>p\<in>set ps. playerId p < length (players s)" by simp_all
  from calculateLongestRoad_returns[OF p] obtain len where
    len: "calculateLongestRoad s (playerId p) = Inr len" by blast
  have a: "\<exists>lp' ll'. longestLoop s ps (Some (playerId p), x) = Inr (lp', ll') \<and>
           (case lp' of None \<Rightarrow> True | Some k \<Rightarrow> k < length (players s))" for x
    by (rule Cons.IH[OF ps]) (simp add: p)
  have b: "\<exists>lp' ll'. longestLoop s ps (lp, ll) = Inr (lp', ll') \<and>
           (case lp' of None \<Rightarrow> True | Some k \<Rightarrow> k < length (players s))"
    by (rule Cons.IH[OF ps]) (use Cons.prems(2) acc in simp)
  show ?case unfolding acc using a b len by simp
qed

lemma updateLongestRoad_returns:
  assumes "playersInRange s"
  shows "fst (updateLongestRoad s) = Inr ()"
proof -
  from assms have "\<forall>p\<in>set (players s). playerId p < length (players s)"
    by (simp add: playersInRange_def list_all_iff)
  from longestLoop_returns[OF this, of "(None, 0)"] obtain lp ll where
    loop: "longestLoop s (players s) (None, 0) = Inr (lp, ll)"
    and lp: "case lp of None \<Rightarrow> True | Some k \<Rightarrow> k < length (players s)"
    by auto
  from assms have "\<exists>s1. removeFromPrevious s = Inr s1 \<and> length (players s1) = length (players s)"
    by (auto simp: playersInRange_def removeFromPrevious_def nth_opt_def split: option.splits)
  then obtain s1 where s1: "removeFromPrevious s = Inr s1"
    and len: "length (players s1) = length (players s)"
    by blast
  show ?thesis using loop lp s1 len
    by (auto simp: updateLongestRoad_def nth_opt_def split: option.splits)
qed

lemma edges_removeFromPrevious: "removeFromPrevious s = Inr s' \<Longrightarrow> edges s' = edges s"
  by (auto simp: removeFromPrevious_def split: option.splits if_splits)

lemma edges_updateLongestRoad: "edges (snd (updateLongestRoad s)) = edges s"
  by (auto simp: updateLongestRoad_def split: sum.splits option.splits prod.splits
      dest: edges_removeFromPrevious)

lemma phase_removeFromPrevious: "removeFromPrevious s = Inr s' \<Longrightarrow> phase s' = phase s"
  by (auto simp: removeFromPrevious_def split: option.splits if_splits)

lemma phase_updateLongestRoad: "phase (snd (updateLongestRoad s)) = phase s"
  by (auto simp: updateLongestRoad_def split: sum.splits option.splits prod.splits
      dest: phase_removeFromPrevious)

lemma buildSettlementMain_success:
  assumes "nth_opt (players s) pid = Some player" and "canAffordSettlement player"
    and "nth_opt (vertices s) vid = Some vertex" and "building vertex = None"
    and "checkDistanceRule s vid = Inr True"
  shows "fst (buildSettlementMain s vid pid) = Inr True"
    and "building (vertices (snd (buildSettlementMain s vid pid)) ! vid) = Some Settlement"
    and "playerColor (vertices (snd (buildSettlementMain s vid pid)) ! vid) = Some (color player)"
    and "victoryPoints (players (snd (buildSettlementMain s vid pid)) ! pid) = victoryPoints player + 1"
    and "phase (snd (buildSettlementMain s vid pid)) = phase s"
  using assms
  by (auto simp: buildSettlementMain_def nth_opt_def payForSettlement_def split: if_splits)

lemma buildCity_success:
  assumes "nth_opt (vertices s) vid = Some vertex" and "building vertex = Some Settlement"
    and "nth_opt (players s) pid = Some player" and "playerColor vertex = Some (color player)"
    and "canAffordCity player"
  shows "fst (buildCity s vid pid) = Inr True"
    and "building (vertices (snd (buildCity s vid pid)) ! vid) = Some City"
  using assms by (auto simp: buildCity_def nth_opt_def split: if_splits)

lemma playersInRange_update:
  assumes "playersInRange s" and "pid < length (players s)"
    and "playerId p' = playerId (players s ! pid)"
  shows "playersInRange (s\<lparr>edges := es, players := (players s)[pid := p']\<rparr>)"
proof -
  have "playerId q < length (players s)" if "q \<in> set ((players s)[pid := p'])" for q
  proof -
    from that have "q = p' \<or> q \<in> set (players s)"
      by (meson insert_iff set_update_subset_insert subsetD)
    then show ?thesis
      using assms by (auto simp: playersInRange_def list_all_iff)
  qed
  then show ?thesis using assms(1)
    by (auto simp: playersInRange_def list_all_iff split: option.splits)
qed

lemma buildRoadMain_success:
  assumes "nth_opt (edges s) eid = Some edge" and "road edge = None"
    and "nth_opt (players s) pid = Some player" and "canAffordRoad player"
    and "isRoadConnected s eid pid = Inr True" and "playersInRange s"
  shows "fst (buildRoadMain s eid pid) = Inr True"
    and "road (edges (snd (buildRoadMain s eid pid)) ! eid) = Some (color player)"
proof -
  let ?t = "s\<lparr>edges := (edges s)[eid := edge\<lparr>road := Some (color player)\<rparr>],
              players := (players s)[pid := payForRoad (player\<lparr>roads := roads player + 1\<rparr>)]\<rparr>"
  from assms(3) have pid: "pid < length (players s)" and pl: "player = players s ! pid"
    by (auto simp: nth_opt_def split: if_splits)
  from assms(1) have eid: "eid < length (edges s)"
    by (auto simp: nth_opt_def split: if_splits)
  have "playersInRange ?t"
    by (rule playersInRange_update[OF assms(6) pid]) (simp add: payForRoad_def pl)
  then have ok: "fst (updateLongestRoad ?t) = Inr ()" by (rule updateLongestRoad_returns)
  have run: "buildRoadMain s eid pid = (Inr True, snd (updateLongestRoad ?t))"
    using assms(1-5) ok by (auto simp: buildRoadMain_def split: prod.splits sum.splits)
  show "fst (buildRoadMain s eid pid) = Inr True" by (simp add: run)
  show "road (edges (snd (buildRoadMain s eid pid)) ! eid) = Some (color player)"
    using eid by (simp add: run edges_updateLongestRoad)
qed

text \<open>
  Claim C10. Outside the initial-placement phase the three build commands return the
  same result, and leave the same state, whatever the phase, the current seat and the
  dice flag are set to (the three fields are only carried along). A settlement succeeds
  for any player who can afford it on a vacant vertex that passes the distance rule, a
  city for any player who can afford it on a settlement of the player's colour, a road
  (in a game whose player ids are in range) for any player who can afford it on a vacant
  edge that is connected; each success writes the building or road into the state.
\<close>

theorem builds_ignore_phase_and_seat:
  assumes "\<not> initialPlacementPhase (state e)"
  shows
    "buildSettlement cd (e\<lparr>state := retime ph c d (state e)\<rparr>) vid pid =
       (fst (buildSettlement cd e vid pid),
        (snd (buildSettlement cd e vid pid))\<lparr>state :=
           retime ph c d (state (snd (buildSettlement cd e vid pid)))\<rparr>) \<and>
     buildCity (retime ph c d (state e)) vid pid =
       (fst (buildCity (state e) vid pid), retime ph c d (snd (buildCity (state e) vid pid))) \<and>
     buildRoad (e\<lparr>state := retime ph c d (state e)\<rparr>) eid pid vidOpt =
       (fst (buildRoad e eid pid vidOpt),
        (snd (buildRoad e eid pid vidOpt))\<lparr>state :=
           retime ph c d (state (snd (buildRoad e eid pid vidOpt)))\<rparr>) \<and>
     (\<forall>player vertex.
        nth_opt (players (state e)) pid = Some player \<and> canAffordSettlement player \<and>
        nth_opt (vertices (state e)) vid = Some vertex \<and> building vertex = None \<and>
        checkDistanceRule (state e) vid = Inr True \<longrightarrow>
        fst (buildSettlement cd e vid pid) = Inr True \<and>
        building (vertices (state (snd (buildSettlement cd e vid pid))) ! vid) = Some Settlement) \<and>
     (\<forall>player vertex.
        nth_opt (vertices (state e)) vid = Some vertex \<and> building vertex = Some Settlement \<and>
        nth_opt (players (state e)) pid = Some player \<and>
        playerColor vertex = Some (color player) \<and> canAffordCity player \<longrightarrow>
        fst (buildCity (state e) vid pid) = Inr True \<and>
        building (vertices (snd (buildCity (state e) vid pid)) ! vid) = Some City) \<and>
     (\<forall>player edge.
        nth_opt (edges (state e)) eid = Some edge \<and> road edge = None \<and>
        nth_opt (players (state e)) pid = Some player \<and> canAffordRoad player \<and>
        isRoadConnected (state e) eid pid = Inr True \<and> playersInRange (state e) \<longrightarrow>
        fst (buildRoad e eid pid vidOpt) = Inr True \<and>
        road (edges (state (snd (buildRoad e eid pid vidOpt))) ! eid) = Some (color player))"
proof -
  have bs: "buildSettlement cd e' vid pid =
              (fst (buildSettlementMain (state e') vid pid),
               e'\<lparr>state := snd (buildSettlementMain (state e') vid pid)\<rparr>)"
    if "\<not> initialPlacementPhase (state e')" for e'
    using that by (simp add: buildSettlement_def split_beta)
  have br: "buildRoad e' eid pid vidOpt =
              (fst (buildRoadMain (state e') eid pid),
               e'\<lparr>state := snd (buildRoadMain (state e') eid pid)\<rparr>)"
    if "\<not> initialPlacementPhase (state e')" for e'
    using that by (simp add: buildRoad_def split_beta)
  have r: "\<not> initialPlacementPhase (state (e\<lparr>state := retime ph c d (state e)\<rparr>))"
    using assms by simp
  have 1: "buildSettlement cd (e\<lparr>state := retime ph c d (state e)\<rparr>) vid pid =
       (fst (buildSettlement cd e vid pid),
        (snd (buildSettlement cd e vid pid))\<lparr>state :=
           retime ph c d (state (snd (buildSettlement cd e vid pid)))\<rparr>)"
    by (simp add: bs[OF r] bs[OF assms] buildSettlementMain_retime)
  have 2: "buildCity (retime ph c d (state e)) vid pid =
       (fst (buildCity (state e) vid pid), retime ph c d (snd (buildCity (state e) vid pid)))"
    by (rule buildCity_retime)
  have 3: "buildRoad (e\<lparr>state := retime ph c d (state e)\<rparr>) eid pid vidOpt =
       (fst (buildRoad e eid pid vidOpt),
        (snd (buildRoad e eid pid vidOpt))\<lparr>state :=
           retime ph c d (state (snd (buildRoad e eid pid vidOpt)))\<rparr>)"
    by (simp add: br[OF r] br[OF assms] buildRoadMain_retime)
  have 4: "fst (buildSettlement cd e vid pid) = Inr True \<and>
        building (vertices (state (snd (buildSettlement cd e vid pid))) ! vid) = Some Settlement"
    if "nth_opt (players (state e)) pid = Some player \<and> canAffordSettlement player \<and>
        nth_opt (vertices (state e)) vid = Some vertex \<and> building vertex = None \<and>
        checkDistanceRule (state e) vid = Inr True" for player vertex
    using that buildSettlementMain_success(1,2)[of "state e" pid player vid vertex]
    by (simp add: bs[OF assms])
  have 5: "fst (buildCity (state e) vid pid) = Inr True \<and>
        building (vertices (snd (buildCity (state e) vid pid)) ! vid) = Some City"
    if "nth_opt (vertices (state e)) vid = Some vertex \<and> building vertex = Some Settlement \<and>
        nth_opt (players (state e)) pid = Some player \<and>
        playerColor vertex = Some (color player) \<and> canAffordCity player" for player vertex
    using that buildCity_success[of "state e" vid vertex pid player] by simp
  have 6: "fst (buildRoad e eid pid vidOpt) = Inr True \<and>
        road (edges (state (snd (buildRoad e eid pid vidOpt))) ! eid) = Some (color player)"
    if "nth_opt (edges (state e)) eid = Some edge \<and> road edge = None \<and>
        nth_opt (players (state e)) pid = Some player \<and> canAffordRoad player \<and>
        isRoadConnected (state e) eid pid = Inr True \<and> playersInRange (state e)" for player edge
    using that buildRoadMain_success[of "state e" eid edge pid player]
    by (simp add: br[OF assms])
  show ?thesis using 1 2 3 4 5 6 by blast
qed

lemmas main_eval =
  mainEngine_def roundTwoEngine_def mainState_def miniState_def richPlayer_def built_def
  createPlayer_def newVertex_def newEdge_def nth_opt_def mapGet0_def mapSet_def Let_def

theorem builds_ignore_phase_and_seat_witness:
  "\<not> initialPlacementPhase (state mainEngine) \<and>
   currentPlayerIndex (state mainEngine) = 0 \<and> \<not> diceRolled (state mainEngine) \<and>
   fst (buildSettlement miniDist mainEngine 6 1) = Inr True \<and>
   fst (buildCity (state mainEngine) 2 1) = Inr True \<and>
   fst (buildRoad mainEngine 1 1 None) = Inr True \<and>
   fst (buildSettlement miniDist (mainEngine\<lparr>state := retime GameOver 3 True (state mainEngine)\<rparr>) 6 1)
     = Inr True"
proof -
  let ?blue = "richPlayer 1 ''Player 2'' Blue 2"
  have ph: "\<not> initialPlacementPhase (state mainEngine)" by (simp add: main_eval)
  have seat: "currentPlayerIndex (state mainEngine) = 0" "\<not> diceRolled (state mainEngine)"
    by (simp_all add: main_eval)
  have p: "nth_opt (players (state mainEngine)) 1 = Some ?blue" by (simp add: main_eval)
  have a: "canAffordSettlement ?blue" "canAffordCity ?blue" "canAffordRoad ?blue"
    by (simp_all add: canAffordSettlement_def canAffordCity_def canAffordRoad_def
        richPlayer_def mapGet0_def)
  have v6: "nth_opt (vertices (state mainEngine)) 6 = Some ((newVertex 6)\<lparr>vertexX := 7\<rparr>)"
    by (simp add: main_eval)
  have v2: "nth_opt (vertices (state mainEngine)) 2 = Some (built 2 Settlement Blue)"
    by (simp add: main_eval)
  have e1: "nth_opt (edges (state mainEngine)) 1 = Some ((newEdge 1)\<lparr>vertex1 := 2, vertex2 := 3\<rparr>)"
    by (simp add: main_eval)
  have dist: "checkDistanceRule (state mainEngine) 6 = Inr True"
    by (simp add: checkDistanceRule_def getAdjacentVertices_def setAdd_def main_eval)
  have conn: "isRoadConnected (state mainEngine) 1 1 = Inr True"
    by (simp add: isRoadConnected_def buildingOf_def orElse_def main_eval)
  have rng: "playersInRange (state mainEngine)"
    by (simp add: playersInRange_def main_eval)
  note t = builds_ignore_phase_and_seat[OF ph, of miniDist GameOver 3 True 6 1]
  note t2 = builds_ignore_phase_and_seat[OF ph, of miniDist GameOver 3 True 2 1 1 None]
  have s: "fst (buildSettlement miniDist mainEngine 6 1) = Inr True"
    using t p a(1) v6 dist by (simp add: newVertex_def)
  have c: "fst (buildCity (state mainEngine) 2 1) = Inr True"
    using t2 p a(2) v2 by (simp add: built_def richPlayer_def createPlayer_def)
  have r: "fst (buildRoad mainEngine 1 1 None) = Inr True"
    using t2 p a(3) e1 conn rng by (simp add: newEdge_def)
  have g: "fst (buildSettlement miniDist (mainEngine\<lparr>state := retime GameOver 3 True (state mainEngine)\<rparr>) 6 1)
     = Inr True"
    using t s by simp
  show ?thesis using ph seat s c r g by simp
qed

lemma retime_phase:
  "s\<lparr>phase := ph\<rparr> = retime ph (currentPlayerIndex s) (diceRolled s) s"
  by (simp add: retime_def)

lemma buildSettlementMain_result:
  assumes "buildSettlementMain s vid pid = (Inr True, s')"
  shows "victoryPoints (players s' ! pid) = victoryPoints (players s ! pid) + 1 \<and>
         phase s' = phase s"
  using assms
  by (auto simp: buildSettlementMain_def nth_opt_def payForSettlement_def
      split: option.splits if_splits sum.splits)

text \<open>
  Claim C4, as amended. Outside the setup phase a successful \<^verbatim>\<open>buildSettlement\<close> adds one
  victory point to the builder (9 becomes 10) and leaves the phase as it was; the phase
  becomes \<^verbatim>\<open>gameOver\<close> in \<^verbatim>\<open>endTurn\<close>, exactly when the seat the turn passes to has at least
  10 victory points; and each build command returns in the game-over phase what it
  returns in any other phase: none is rejected for the phase.
\<close>

theorem game_over_only_at_end_of_turn:
  assumes "\<not> initialPlacementPhase (state e)"
  shows
    "(\<forall>e'. buildSettlement cd e vid pid = (Inr True, e') \<longrightarrow>
         victoryPoints (players (state e') ! pid) = victoryPoints (players (state e) ! pid) + 1 \<and>
         phase (state e') = phase (state e)) \<and>
     (\<forall>s'. endTurn (state e) = (Inr (), s') \<longrightarrow>
         (phase s' = GameOver) =
           (victoryPoints (players (state e) ! ((currentPlayerIndex (state e) + 1) mod 4)) \<ge> 10)) \<and>
     fst (buildSettlement cd (e\<lparr>state := (state e)\<lparr>phase := GameOver\<rparr>\<rparr>) vid pid) =
       fst (buildSettlement cd e vid pid) \<and>
     fst (buildCity ((state e)\<lparr>phase := GameOver\<rparr>) vid pid) = fst (buildCity (state e) vid pid) \<and>
     fst (buildRoad (e\<lparr>state := (state e)\<lparr>phase := GameOver\<rparr>\<rparr>) eid pid vidOpt) =
       fst (buildRoad e eid pid vidOpt)"
proof -
  have 1: "victoryPoints (players (state e') ! pid) = victoryPoints (players (state e) ! pid) + 1 \<and>
         phase (state e') = phase (state e)"
    if "buildSettlement cd e vid pid = (Inr True, e')" for e'
  proof -
    from that assms have "buildSettlementMain (state e) vid pid = (Inr True, state e')"
      by (auto simp: buildSettlement_def split: prod.splits)
    then show ?thesis by (rule buildSettlementMain_result)
  qed
  have 2: "(phase s' = GameOver) =
           (victoryPoints (players (state e) ! ((currentPlayerIndex (state e) + 1) mod 4)) \<ge> 10)"
    if "endTurn (state e) = (Inr (), s')" for s'
    using that by (auto simp: endTurn_def Let_def nth_opt_def split: option.splits if_splits)
  have 3: "fst (buildSettlement cd (e\<lparr>state := (state e)\<lparr>phase := GameOver\<rparr>\<rparr>) vid pid) =
       fst (buildSettlement cd e vid pid)"
    using assms
    by (simp add: buildSettlement_def split_beta retime_phase[where s = "state e"] buildSettlementMain_retime)
  have 4: "fst (buildCity ((state e)\<lparr>phase := GameOver\<rparr>) vid pid) = fst (buildCity (state e) vid pid)"
    by (simp add: retime_phase[where s = "state e"] buildCity_retime)
  have 5: "fst (buildRoad (e\<lparr>state := (state e)\<lparr>phase := GameOver\<rparr>\<rparr>) eid pid vidOpt) =
       fst (buildRoad e eid pid vidOpt)"
    using assms
    by (simp add: buildRoad_def split_beta retime_phase[where s = "state e"] buildRoadMain_retime)
  show ?thesis using 1 2 3 4 5 by blast
qed

lemma mainEngine_settlement:
  "fst (buildSettlement miniDist mainEngine 6 0) = Inr True \<and>
   victoryPoints (players (state (snd (buildSettlement miniDist mainEngine 6 0))) ! 0) = 10 \<and>
   phase (state (snd (buildSettlement miniDist mainEngine 6 0))) = RollingDice"
  by (simp add: buildSettlement_def buildSettlementMain_def checkDistanceRule_def
      getAdjacentVertices_def setAdd_def canAffordSettlement_def payForSettlement_def spend_def
      main_eval)

lemma gameOverEngine_settlement:
  "fst (buildSettlement miniDist gameOverEngine 6 1) = Inr True"
  by (simp add: buildSettlement_def buildSettlementMain_def checkDistanceRule_def
      getAdjacentVertices_def setAdd_def canAffordSettlement_def payForSettlement_def spend_def
      gameOverEngine_def main_eval)

theorem game_over_only_at_end_of_turn_witness:
  "\<not> initialPlacementPhase (state mainEngine) \<and>
   victoryPoints (players (state mainEngine) ! 0) = 9 \<and>
   fst (buildSettlement miniDist mainEngine 6 0) = Inr True \<and>
   victoryPoints (players (state (snd (buildSettlement miniDist mainEngine 6 0))) ! 0) = 10 \<and>
   phase (state (snd (buildSettlement miniDist mainEngine 6 0))) = phase (state mainEngine)"
proof -
  have ph: "\<not> initialPlacementPhase (state mainEngine)" by (simp add: main_eval)
  have vp: "victoryPoints (players (state mainEngine) ! 0) = 9" by (simp add: main_eval)
  have run: "buildSettlement miniDist mainEngine 6 0 =
               (Inr True, snd (buildSettlement miniDist mainEngine 6 0))"
    using mainEngine_settlement by (simp add: prod_eq_iff)
  from game_over_only_at_end_of_turn[OF ph, of miniDist 6 0] run
  have "victoryPoints (players (state (snd (buildSettlement miniDist mainEngine 6 0))) ! 0) =
          victoryPoints (players (state mainEngine) ! 0) + 1 \<and>
        phase (state (snd (buildSettlement miniDist mainEngine 6 0))) = phase (state mainEngine)"
    by blast
  then show ?thesis using ph vp mainEngine_settlement by simp
qed

text \<open>
  Claim C4 as stated fails: red, at 9 victory points, builds a settlement and has 10,
  and the phase is still \<^verbatim>\<open>rollingDice\<close>; and in the game-over phase blue's settlement on
  vertex 6 is accepted.
\<close>

theorem no_game_over_on_build_counterexample:
  "victoryPoints (players (state mainEngine) ! 0) = 9 \<and>
   fst (buildSettlement miniDist mainEngine 6 0) = Inr True \<and>
   victoryPoints (players (state (snd (buildSettlement miniDist mainEngine 6 0))) ! 0) = 10 \<and>
   phase (state (snd (buildSettlement miniDist mainEngine 6 0))) = RollingDice \<and>
   phase (state gameOverEngine) = GameOver \<and>
   fst (buildSettlement miniDist gameOverEngine 6 1) = Inr True"
proof -
  have "victoryPoints (players (state mainEngine) ! 0) = 9" by (simp add: main_eval)
  moreover have "phase (state gameOverEngine) = GameOver"
    by (simp add: gameOverEngine_def)
  ultimately show ?thesis using mainEngine_settlement gameOverEngine_settlement by simp
qed


section \<open>The longest road (claims C7 and C3)\<close>

lemmas road_eval =
  roadEngine_def roundTwoEngine_def roadState_def miniState_def richPlayer_def link_def
  createPlayer_def newVertex_def nth_opt_def mapGet0_def mapSet_def Let_def
  calculateLongestRoad_def getEdgesConnectedToVertex_def

lemma blue_Y_code: "calculateLongestRoad roadState 1 = Inr 5"
  by (simp add: road_eval)

lemma red_chain_code: "calculateLongestRoad roadState 0 = Inr 5"
  by (simp add: road_eval)

lemma blue_Y_trail: "specLongestTrail roadState Blue = 4"
  by (simp add: specLongestTrail_def road_eval)

lemma red_chain_trail: "specLongestTrail roadState Red = 5"
  by (simp add: specLongestTrail_def road_eval)

lemma roadState_owned:
  "map road (edges roadState) =
     [Some Red, Some Red, Some Red, Some Red, Some Red, None,
      Some Blue, Some Blue, Some Blue, Some Blue, Some Blue] \<and>
   map endpoints (edges roadState) =
     [(0, 1), (1, 2), (2, 3), (3, 4), (4, 5), (5, 6),
      (10, 11), (11, 12), (10, 13), (13, 14), (10, 15)] \<and>
   map color (players roadState) = [Red, Blue, Orange, White]"
  by (simp add: roadState_def link_def endpoints_def richPlayer_def createPlayer_def)

text \<open>
  Claim C7. In \<open>roadState\<close> Red (player 0) owns the straight chain of the five edges
  0-1-2-3-4-5, and \<^verbatim>\<open>calculateLongestRoad\<close> returns 5 for it, the longest trail. Blue
  (player 1) owns a Y at vertex 10 with the branches 10-11-12, 10-13-14 and 10-15. The
  longest trail of the Y joins its two longest branches and has 4 edges, but
  \<^verbatim>\<open>calculateLongestRoad\<close> returns 5, the number of all edges Blue owns: the search leaves
  an edge through either endpoint, also the one it came in by, so it walks
  11-12, 10-11, 10-15, 10-13, 13-14, turning round at vertex 15 without using an edge
  twice in its own bookkeeping.
\<close>

theorem longest_road_Y_overcount:
  "map road (edges roadState) =
     [Some Red, Some Red, Some Red, Some Red, Some Red, None,
      Some Blue, Some Blue, Some Blue, Some Blue, Some Blue] \<and>
   map endpoints (edges roadState) =
     [(0, 1), (1, 2), (2, 3), (3, 4), (4, 5), (5, 6),
      (10, 11), (11, 12), (10, 13), (13, 14), (10, 15)] \<and>
   map color (players roadState) = [Red, Blue, Orange, White] \<and>
   calculateLongestRoad roadState 0 = Inr 5 \<and> specLongestTrail roadState Red = 5 \<and>
   calculateLongestRoad roadState 1 = Inr 5 \<and> specLongestTrail roadState Blue = 4"
  using roadState_owned blue_Y_code red_chain_code blue_Y_trail red_chain_trail by simp

lemmas build_road_eval =
  buildRoad_def buildRoadMain_def isRoadConnected_def buildingOf_def orElse_def
  getConnectedEdges_def canAffordRoad_def payForRoad_def spend_def updateLongestRoad_def
  removeFromPrevious_def

lemma road_build:
  "buildRoad roadEngine 5 0 None =
     (Inr True,
      roadEngine\<lparr>state := roadState\<lparr>
        edges := (edges roadState)[5 := link 5 5 6 (Some Red)],
        players := (players roadState)[0 :=
          (players roadState ! 0)\<lparr>
             resources := [(Brick, 4), (Wood, 4), (Sheep, 5), (Wheat, 5), (Ore, 5)],
             roads := 6, victoryPoints := 2, hasLongestRoad := False\<rparr>]\<rparr>\<rparr>)"
  by (simp add: road_eval build_road_eval)

lemma road_before:
  "longestRoadPlayer (state roadEngine) = Some 0 \<and>
   map victoryPoints (players (state roadEngine)) = [4, 2, 2, 2] \<and>
   map hasLongestRoad (players (state roadEngine)) = [True, False, False, False]"
  by (simp add: road_eval)

lemma road_after:
  "fst (buildRoad roadEngine 5 0 None) = Inr True \<and>
   longestRoadPlayer (state (snd (buildRoad roadEngine 5 0 None))) = Some 0 \<and>
   map victoryPoints (players (state (snd (buildRoad roadEngine 5 0 None)))) = [2, 2, 2, 2] \<and>
   map hasLongestRoad (players (state (snd (buildRoad roadEngine 5 0 None))))
     = [False, False, False, False]"
  unfolding road_build by (simp add: road_eval)

lemma road_after_code:
  "calculateLongestRoad (state (snd (buildRoad roadEngine 5 0 None))) 0 = Inr 6 \<and>
   calculateLongestRoad (state (snd (buildRoad roadEngine 5 0 None))) 1 = Inr 5"
  unfolding road_build by (simp add: road_eval)

lemma road_after_trail:
  "specLongestTrail (state (snd (buildRoad roadEngine 5 0 None))) Red = 6 \<and>
   specLongestTrail (state (snd (buildRoad roadEngine 5 0 None))) Blue = 4"
  unfolding road_build by (simp add: specLongestTrail_def road_eval)

text \<open>
  Claim C3. In \<open>roadEngine\<close> Red (player 0) holds the longest-road bonus with the chain of
  five edges and 4 victory points, the others have 2. Red builds edge 5 and extends the
  chain to six edges, the board's longest by the code's count (Blue: 5) and as a trail
  (Blue: 4). \<^verbatim>\<open>buildRoad\<close> returns true, and \<^verbatim>\<open>updateLongestRoad\<close> takes 2 victory points
  and the flag from Red as the previous holder, then awards nothing, because the longest
  player is the recorded holder: Red is left with 2 victory points and without the
  flag, while \<^verbatim>\<open>longestRoadPlayer\<close> still names Red.
\<close>

theorem holder_loses_bonus_on_retain:
  "longestRoadPlayer (state roadEngine) = Some 0 \<and>
   map victoryPoints (players (state roadEngine)) = [4, 2, 2, 2] \<and>
   map hasLongestRoad (players (state roadEngine)) = [True, False, False, False] \<and>
   fst (buildRoad roadEngine 5 0 None) = Inr True \<and>
   calculateLongestRoad (state (snd (buildRoad roadEngine 5 0 None))) 0 = Inr 6 \<and>
   calculateLongestRoad (state (snd (buildRoad roadEngine 5 0 None))) 1 = Inr 5 \<and>
   specLongestTrail (state (snd (buildRoad roadEngine 5 0 None))) Red = 6 \<and>
   specLongestTrail (state (snd (buildRoad roadEngine 5 0 None))) Blue = 4 \<and>
   longestRoadPlayer (state (snd (buildRoad roadEngine 5 0 None))) = Some 0 \<and>
   map victoryPoints (players (state (snd (buildRoad roadEngine 5 0 None)))) = [2, 2, 2, 2] \<and>
   map hasLongestRoad (players (state (snd (buildRoad roadEngine 5 0 None))))
     = [False, False, False, False]"
  using road_before road_after road_after_code road_after_trail by simp
end
